theory Spec2Isabelle
  imports Complex_Main
begin

section \<open>Data model\<close>

text \<open>
  The rows of the two tables created by \<open>initializeDatabase\<close>, restricted to the columns
  that \<open>server.js\<close> selects, with the types that the schema declares: a column
  declared \<open>REAL\<close> is a rational number, a column without \<open>NOT NULL\<close> may hold
  \<open>NULL\<close> (\<open>None\<close>), a \<open>TEXT\<close> column is a string (the bytes of its UTF-8
  encoding). What the two columns of a user may hold beyond their declared type, an
  infinite number or a text, is the subject of a section of its own below. Arithmetic on
  amounts is exact: the rounding of IEEE doubles is not part of this model. The values
  that are not finite numbers are part of it where the code divides or compares (type
  \<open>jsnum\<close> below).
\<close>

record user =
  monthly_income :: "rat option"
  savings_goal :: "rat option"

record expense =
  name :: string
  amount :: rat
  category :: string

text \<open>
  A JavaScript number that may fail to be finite: the result of a division, or of
  converting a value of another type to a number.
\<close>

datatype jsnum = Number rat | Infinity | NegInfinity | NaN

text \<open>\<open>x || 0\<close> on a nullable numeric column: \<open>NULL\<close> and \<open>0\<close> are falsy.\<close>

definition or_zero :: "rat option \<Rightarrow> rat" where
  "or_zero v = (case v of None \<Rightarrow> 0 | Some x \<Rightarrow> (if x = 0 then 0 else x))"

text \<open>\<open>a / b\<close> on finite numbers: a zero divisor gives an infinity or \<open>NaN\<close>.\<close>

definition js_div :: "rat \<Rightarrow> rat \<Rightarrow> jsnum" where
  "js_div a b =
     (if b = 0 then (if a = 0 then NaN else if 0 < a then Infinity else NegInfinity)
      else Number (a / b))"

text \<open>\<open>x * c\<close> with a finite right factor.\<close>

definition js_times :: "jsnum \<Rightarrow> rat \<Rightarrow> jsnum" where
  "js_times x c =
     (case x of
        Number a \<Rightarrow> Number (a * c)
      | NaN \<Rightarrow> NaN
      | Infinity \<Rightarrow> (if c = 0 then NaN else if 0 < c then Infinity else NegInfinity)
      | NegInfinity \<Rightarrow> (if c = 0 then NaN else if 0 < c then NegInfinity else Infinity))"

text \<open>\<open>Math.min(c, x)\<close> with a finite first argument.\<close>

definition js_min :: "rat \<Rightarrow> jsnum \<Rightarrow> jsnum" where
  "js_min c x =
     (case x of
        Number a \<Rightarrow> Number (min c a)
      | NaN \<Rightarrow> NaN
      | Infinity \<Rightarrow> Number c
      | NegInfinity \<Rightarrow> NegInfinity)"

text \<open>
  What a handler sends: an error status with its \<open>{error: ...}\<close> text, or a body.
  A query of the store gives \<open>Inl\<close> the driver's error message or \<open>Inr\<close> its rows.
\<close>

datatype http_error = Http_error nat string

section \<open>Statistics: \<open>GET /api/stats\<close>\<close>

text \<open>
  The query \<open>SELECT category, SUM(amount) as total ... GROUP BY category\<close> over the
  user's expenses of the current month: one row for each category, with the sum of its
  amounts. SQL leaves the order of the groups open; here it is the order of first
  appearance.
\<close>

fun add_to_group :: "string \<Rightarrow> rat \<Rightarrow> (string \<times> rat) list \<Rightarrow> (string \<times> rat) list" where
  "add_to_group c a [] = [(c, a)]"
| "add_to_group c a ((k, t) # groups) =
     (if k = c then (k, t + a) # groups else (k, t) # add_to_group c a groups)"

definition category_totals_query :: "expense list \<Rightarrow> (string \<times> rat) list" where
  "category_totals_query rows =
     foldl (\<lambda>groups e. add_to_group (category e) (amount e) groups) [] rows"

record snapshot =
  stats_monthly_income :: "rat option"
  stats_savings_goal :: "rat option"
  total_expenses :: rat
  saved_amount :: rat
  goal_percentage :: jsnum
  category_totals :: "(string \<times> rat) list"

text \<open>
  The body of the inner callback, lines 214 to 225, on a row whose two columns hold
  \<open>NULL\<close> or a finite number.
\<close>

definition stats_body :: "user \<Rightarrow> (string \<times> rat) list \<Rightarrow> snapshot" where
  "stats_body u categoryTotals =
     (let totalExpenses = foldl (\<lambda>sum cat. sum + snd cat) 0 categoryTotals;
          saved = max 0 (or_zero (monthly_income u) - totalExpenses);
          goalPercentage =
            (case savings_goal u of
               None \<Rightarrow> Number 0
             | Some g \<Rightarrow>
                 if 0 < g then js_min 100 (js_times (js_div saved g) 100) else Number 0)
      in \<lparr> stats_monthly_income = monthly_income u,
           stats_savings_goal = savings_goal u,
           total_expenses = totalExpenses,
           saved_amount = saved,
           goal_percentage = goalPercentage,
           category_totals = categoryTotals \<rparr>)"


section \<open>Strings and the runtime\<close>

text \<open>
  The characters of the templates that are not ASCII, as their UTF-8 bytes: the rupee
  sign U+20B9, the bullet U+2022 and the apostrophe U+2019; and the double quote.
\<close>

definition rupee :: string where
  "rupee = [CHR 0xE2, CHR 0x82, CHR 0xB9]"

definition bullet :: string where
  "bullet = [CHR 0xE2, CHR 0x80, CHR 0xA2]"

definition apostrophe :: string where
  "apostrophe = [CHR 0xE2, CHR 0x80, CHR 0x99]"

definition dquote :: string where
  "dquote = [CHR 0x22]"

text \<open>
  \<open>String.prototype.toLowerCase\<close>, on the letters A to Z. The only characters outside
  ASCII whose lower case contains an ASCII letter are U+212A (to k) and U+0130 (to i and a
  combining dot); neither makes or breaks an occurrence of a keyword of the advice
  engine, which is all that the lowered question is used for.
\<close>

definition lower_char :: "char \<Rightarrow> char" where
  "lower_char c =
     (if 65 \<le> (of_char c :: nat) \<and> (of_char c :: nat) \<le> 90
      then char_of ((of_char c :: nat) + 32) else c)"

definition toLowerCase :: "string \<Rightarrow> string" where
  "toLowerCase s = map lower_char s"

text \<open>\<open>s.includes(kw)\<close>: \<open>kw\<close> occurs in \<open>s\<close> as a contiguous block.\<close>

fun includes_str :: "string \<Rightarrow> string \<Rightarrow> bool" where
  "includes_str [] kw = (kw = [])"
| "includes_str (c # cs) kw = (take (length kw) (c # cs) = kw \<or> includes_str cs kw)"

text \<open>
  What the code takes from the JavaScript runtime and not from this repository:
  the text of a number in a template literal, \<open>toFixed(1)\<close>, the text of a function
  inherited from \<open>Object.prototype\<close> (by its property name), \<open>trim\<close>, and the
  number that a string converts to.
\<close>

record runtime =
  number_text :: "rat \<Rightarrow> string"
  fixed1_text :: "rat \<Rightarrow> string"
  function_text :: "string \<Rightarrow> string"
  trim :: "string \<Rightarrow> string"
  string_number :: "string \<Rightarrow> jsnum"

section \<open>The advice engine: \<open>generateMockAIResponse\<close>\<close>

subsection \<open>The object \<open>categories\<close>\<close>

text \<open>
  A property of \<open>categories\<close> holds a number, or a string once \<open>+\<close> has concatenated.
  The object is the list of its own properties in the order of their creation.
\<close>

datatype cell = Total rat | Glued string

text \<open>
  The properties that every object inherits from \<open>Object.prototype\<close>. All are
  functions, but \<open>__proto__\<close>, an accessor: reading it gives the prototype, and assigning
  a string to it changes nothing.
\<close>

definition object_prototype_functions :: "string list" where
  "object_prototype_functions =
     [''constructor'', ''hasOwnProperty'', ''isPrototypeOf'', ''propertyIsEnumerable'',
      ''toLocaleString'', ''toString'', ''valueOf'', ''__defineGetter__'',
      ''__defineSetter__'', ''__lookupGetter__'', ''__lookupSetter__'']"

fun set_property :: "string \<Rightarrow> cell \<Rightarrow> (string \<times> cell) list \<Rightarrow> (string \<times> cell) list" where
  "set_property k v [] = [(k, v)]"
| "set_property k v ((k', v') # props) =
     (if k' = k then (k', v) # props else (k', v') # set_property k v props)"

text \<open>
  One call of the \<open>forEach\<close> callback of line 372:
  \<open>categories[exp.category] = (categories[exp.category] || 0) + exp.amount\<close>.
\<close>

definition add_expense :: "runtime \<Rightarrow> (string \<times> cell) list \<Rightarrow> expense \<Rightarrow> (string \<times> cell) list" where
  "add_expense rt categories ex =
     (if category ex = ''__proto__'' then categories
      else
        (case map_of categories (category ex) of
           Some (Total t) \<Rightarrow>
             set_property (category ex) (Total ((if t = 0 then 0 else t) + amount ex)) categories
         | Some (Glued s) \<Rightarrow>
             set_property (category ex)
               (if s = [] then Total (0 + amount ex)
                else Glued (s @ number_text rt (amount ex))) categories
         | None \<Rightarrow>
             if category ex \<in> set object_prototype_functions
             then set_property (category ex)
                    (Glued (function_text rt (category ex) @ number_text rt (amount ex)))
                    categories
             else set_property (category ex) (Total (0 + amount ex)) categories))"

text \<open>
  \<open>Object.entries\<close> lists the properties whose names are array indices first, by
  ascending index, and then the others in the order of their creation. An array index
  is the decimal numeral, without a leading zero, of an integer up to \<open>2^32 - 2\<close>.
\<close>

definition is_digit :: "char \<Rightarrow> bool" where
  "is_digit c \<longleftrightarrow> 48 \<le> (of_char c :: nat) \<and> (of_char c :: nat) \<le> 57"

definition numeral_value :: "string \<Rightarrow> int" where
  "numeral_value s = foldl (\<lambda>n c. 10 * n + ((of_char c :: int) - 48)) 0 s"

definition is_array_index :: "string \<Rightarrow> bool" where
  "is_array_index s \<longleftrightarrow>
     s \<noteq> [] \<and> list_all is_digit s \<and> (s = ''0'' \<or> hd s \<noteq> CHR ''0'')
     \<and> numeral_value s \<le> 4294967294"

definition object_entries :: "(string \<times> cell) list \<Rightarrow> (string \<times> cell) list" where
  "object_entries props =
     sort_key (\<lambda>p. numeral_value (fst p)) (filter (\<lambda>p. is_array_index (fst p)) props)
     @ filter (\<lambda>p. \<not> is_array_index (fst p)) props"

text \<open>A value of \<open>categories\<close> inside the template literal of line 377.\<close>

definition cell_text :: "runtime \<Rightarrow> cell \<Rightarrow> string" where
  "cell_text rt v = (case v of Total t \<Rightarrow> number_text rt t | Glued s \<Rightarrow> s)"

subsection \<open>The five templates\<close>

definition savings_advice :: "runtime \<Rightarrow> rat \<Rightarrow> rat \<Rightarrow> rat \<Rightarrow> string" where
  "savings_advice rt income saved goal =
     ''Based on your current financial situation:\<newline>''
     @ bullet @ '' Monthly Income: '' @ rupee @ number_text rt income @ ''\<newline>''
     @ bullet @ '' Current Savings: '' @ rupee @ number_text rt saved @ ''\<newline>''
     @ bullet @ '' Savings Goal: '' @ rupee @ number_text rt goal @ ''\<newline>''
     @ ''\<newline>''
     @ ''I recommend setting aside 20% of your income ('' @ rupee
     @ number_text rt (income * (2 / 10))
     @ '') each month. Consider automating transfers to your savings account right after you receive your income.''"

definition guideline :: string where
  "guideline = ''\<newline>Try the 50/30/20 rule: 50% needs, 30% wants, 20% savings.''"

definition breakdown_line :: "runtime \<Rightarrow> string \<times> cell \<Rightarrow> string" where
  "breakdown_line rt entry =
     bullet @ '' '' @ fst entry @ '': '' @ rupee @ cell_text rt (snd entry) @ ''\<newline>''"

text \<open>Lines 375 to 381, once \<open>categories\<close> is filled.\<close>

definition breakdown :: "runtime \<Rightarrow> (string \<times> cell) list \<Rightarrow> string" where
  "breakdown rt categories =
     (let advice = ''Your spending breakdown:\<newline>'';
          advice = foldl (\<lambda>advice entry. advice @ breakdown_line rt entry) advice
                     (object_entries categories)
      in advice @ guideline)"

definition budget_advice :: "runtime \<Rightarrow> expense list \<Rightarrow> string" where
  "budget_advice rt expenses =
     (let categories = foldl (add_expense rt) [] expenses
      in breakdown rt categories)"

definition investment_advice :: "runtime \<Rightarrow> rat \<Rightarrow> rat \<Rightarrow> string" where
  "investment_advice rt income totalExpenses =
     ''For your income of '' @ rupee @ number_text rt income
     @ '', consider these investment options:\<newline>''
     @ ''1. Emergency Fund: 3-6 months of expenses ('' @ rupee
     @ number_text rt (totalExpenses * 4) @ '')\<newline>''
     @ ''2. Mutual Funds: Start with '' @ rupee
     @ number_text rt (min 5000 (income * (1 / 10))) @ '' monthly SIP\<newline>''
     @ ''3. Fixed Deposits: Safe option for short-term goals''"

definition debt_advice :: string where
  "debt_advice =
     ''For debt management:\<newline>''
     @ bullet @ '' Prioritize high-interest debts first\<newline>''
     @ bullet @ '' Consider debt consolidation if you have multiple loans\<newline>''
     @ bullet @ '' Aim to keep total EMI under 40% of your monthly income''"

definition generic_advice :: "runtime \<Rightarrow> string \<Rightarrow> rat \<Rightarrow> rat \<Rightarrow> rat \<Rightarrow> rat \<Rightarrow> string" where
  "generic_advice rt question income totalExpenses saved goal =
     ''I understand you're asking about '' @ dquote @ question @ dquote
     @ ''. As your financial advisor, I can see:\<newline>''
     @ bullet @ '' Your monthly income: '' @ rupee @ number_text rt income @ ''\<newline>''
     @ bullet @ '' Current expenses: '' @ rupee @ number_text rt totalExpenses @ ''\<newline>''
     @ bullet @ '' Savings progress: '' @ rupee @ number_text rt saved
     @ '' of '' @ rupee @ number_text rt goal @ '' goal\<newline>''
     @ ''\<newline>''
     @ ''For personalized advice, consider tracking all your expenses and setting clear financial goals. Would you like specific advice on savings, budgeting, or investments?''"

subsection \<open>The function\<close>

definition generateMockAIResponse :: "runtime \<Rightarrow> string \<Rightarrow> user \<Rightarrow> expense list \<Rightarrow> string" where
  "generateMockAIResponse rt question u expenses =
     (let income = or_zero (monthly_income u);
          goal = or_zero (savings_goal u);
          totalExpenses = foldl (\<lambda>sum ex. sum + amount ex) 0 expenses;
          saved = max 0 (income - totalExpenses);
          q = toLowerCase question
      in if includes_str q ''save'' \<or> includes_str q ''saving'' then
           savings_advice rt income saved goal
         else if includes_str q ''budget'' \<or> includes_str q ''spend'' then
           budget_advice rt expenses
         else if includes_str q ''invest'' \<or> includes_str q ''grow'' then
           investment_advice rt income totalExpenses
         else if includes_str q ''debt'' \<or> includes_str q ''loan'' then
           debt_advice
         else
           generic_advice rt question income totalExpenses saved goal)"

section \<open>Chat: \<open>POST /api/chat\<close>\<close>

subsection \<open>The prompt\<close>

text \<open>\<open>parts.join(sep)\<close>.\<close>

fun join :: "string \<Rightarrow> string list \<Rightarrow> string" where
  "join sep [] = []"
| "join sep [p] = p"
| "join sep (p # p' # ps) = p @ sep @ join sep (p' # ps)"

definition spaces :: "nat \<Rightarrow> string" where
  "spaces n = replicate n (CHR '' '')"

text \<open>
  The query \<open>SELECT name, amount, category ... ORDER BY date DESC LIMIT 5\<close>, over the
  user's expenses of the current month given most recent first.
\<close>

definition recent_expenses_query :: "expense list \<Rightarrow> expense list" where
  "recent_expenses_query rows = take 5 rows"

text \<open>The two figures of lines 262 and 263.\<close>

definition chat_totalExpenses :: "expense list \<Rightarrow> rat" where
  "chat_totalExpenses expenses = foldl (\<lambda>sum ex. sum + amount ex) 0 expenses"

definition chat_saved :: "user \<Rightarrow> expense list \<Rightarrow> rat" where
  "chat_saved u expenses = max 0 (or_zero (monthly_income u) - chat_totalExpenses expenses)"

definition recent_line :: "runtime \<Rightarrow> expense \<Rightarrow> string" where
  "recent_line rt e =
     name e @ '': '' @ rupee @ number_text rt (amount e) @ '' ('' @ category e @ '')''"

definition financialContext :: "runtime \<Rightarrow> user \<Rightarrow> expense list \<Rightarrow> string" where
  "financialContext rt u expenses =
     (let totalExpenses = chat_totalExpenses expenses;
          saved = chat_saved u expenses
      in ''\<newline>''
         @ spaces 12 @ ''User Financial Summary:\<newline>''
         @ spaces 12 @ ''- Monthly Income: '' @ rupee
         @ number_text rt (or_zero (monthly_income u)) @ ''\<newline>''
         @ spaces 12 @ ''- Savings Goal: '' @ rupee
         @ number_text rt (or_zero (savings_goal u)) @ ''\<newline>''
         @ spaces 12 @ ''- Current Month Expenses: '' @ rupee
         @ number_text rt (if totalExpenses = 0 then 0 else totalExpenses) @ ''\<newline>''
         @ spaces 12 @ ''- Amount Saved: '' @ rupee
         @ number_text rt (if saved = 0 then 0 else saved) @ ''\<newline>''
         @ spaces 12 @ ''- Savings Rate: ''
         @ (case monthly_income u of
              None \<Rightarrow> number_text rt 0
            | Some i \<Rightarrow>
                if i = 0 then number_text rt 0 else fixed1_text rt ((saved / i) * 100))
         @ ''%\<newline>''
         @ spaces 12 @ ''- Recent Expenses: ''
         @ join '', '' (map (recent_line rt) (take 5 expenses)) @ ''\<newline>''
         @ spaces 10)"

definition prompt :: "string \<Rightarrow> string \<Rightarrow> string" where
  "prompt context message =
     ''\<newline>You are FineFlex AI, a helpful financial advisor.\<newline>''
     @ ''Use this financial context to give personalized advice:\<newline>''
     @ context @ ''\<newline>''
     @ ''\<newline>''
     @ ''Be concise, friendly, and focus on practical, actionable tips.\<newline>''
     @ ''User's question: '' @ message @ ''\<newline>''
     @ spaces 14"

subsection \<open>The answer of the service\<close>

text \<open>
  A parsed JSON text. A value that optional chaining may give is a \<open>json option\<close>,
  \<open>None\<close> for \<open>undefined\<close>.
\<close>

datatype json =
    JNull
  | JBool bool
  | JNumber rat
  | JString string
  | JArray "json list"
  | JObject "(string \<times> json) list"

text \<open>
  \<open>fetch\<close> rejects, or gives a response with its \<open>ok\<close> flag, whose \<open>json()\<close>
  rejects or gives the parsed body.
\<close>

datatype body = Unparseable | Json json

datatype fetch_outcome = Fetch_failed | Http_response bool body

text \<open>
  \<open>x.k\<close> for \<open>x\<close> neither \<open>null\<close> nor \<open>undefined\<close> and \<open>k\<close> one of
  \<open>candidates\<close>, \<open>content\<close>, \<open>parts\<close>, \<open>text\<close>, \<open>output_text\<close>: none of them is
  a property of a string, a number, a boolean or an array. Of a member written twice,
  \<open>JSON.parse\<close> keeps the last.
\<close>

fun member :: "string \<Rightarrow> json \<Rightarrow> json option" where
  "member k (JObject members) = map_of (rev members) k"
| "member k _ = None"

text \<open>
  \<open>x[0]\<close>: the first element of an array, the member \<open>0\<close> of an object, the first
  character of a string (only named properties of it are read afterwards, and it has
  none of them).
\<close>

fun first_element :: "json \<Rightarrow> json option" where
  "first_element (JArray []) = None"
| "first_element (JArray (x # xs)) = Some x"
| "first_element (JObject members) = map_of (rev members) ''0''"
| "first_element (JString s) = (if s = [] then None else Some (JString (take 1 s)))"
| "first_element _ = None"

text \<open>Optional chaining \<open>x?.k\<close>.\<close>

definition chain :: "json option \<Rightarrow> (json \<Rightarrow> json option) \<Rightarrow> json option" where
  "chain x f = (case x of None \<Rightarrow> None | Some JNull \<Rightarrow> None | Some v \<Rightarrow> f v)"

fun truthy :: "json option \<Rightarrow> bool" where
  "truthy None = False"
| "truthy (Some JNull) = False"
| "truthy (Some (JBool b)) = b"
| "truthy (Some (JNumber n)) = (n \<noteq> 0)"
| "truthy (Some (JString s)) = (s \<noteq> [])"
| "truthy (Some (JArray xs)) = True"
| "truthy (Some (JObject members)) = True"

text \<open>The three paths of lines 318 to 322, joined by \<open>||\<close>, and \<open>null\<close> last.\<close>

definition candidate_parts_text :: "json \<Rightarrow> json option" where
  "candidate_parts_text geminiData =
     chain (chain (chain (chain (chain (chain (Some geminiData)
       (member ''candidates'')) first_element)
       (member ''content'')) (member ''parts'')) first_element) (member ''text'')"

definition candidate_output_text :: "json \<Rightarrow> json option" where
  "candidate_output_text geminiData =
     chain (chain (chain (Some geminiData)
       (member ''candidates'')) first_element) (member ''output_text'')"

definition candidate_content_text :: "json \<Rightarrow> json option" where
  "candidate_content_text geminiData =
     chain (chain (chain (chain (Some geminiData)
       (member ''candidates'')) first_element) (member ''content'')) (member ''text'')"

definition extract_text :: "json \<Rightarrow> json option" where
  "extract_text geminiData =
     (if truthy (candidate_parts_text geminiData) then candidate_parts_text geminiData
      else if truthy (candidate_output_text geminiData) then candidate_output_text geminiData
      else if truthy (candidate_content_text geminiData) then candidate_content_text geminiData
      else Some JNull)"

definition apology :: string where
  "apology =
     ''Sorry, I couldn'' @ apostrophe
     @ ''t generate a complete response this time. Try rephrasing your question!''"

subsection \<open>The handler\<close>

text \<open>
  What the caller gets: an error status, the text of \<open>{response: ...}\<close>, or nothing
  at all, when the callback throws after the last \<open>catch\<close> and no response is
  written.
\<close>

datatype chat_reply = Error_reply http_error | Response string | No_response

text \<open>
  The field \<open>message\<close> of the request body is any JSON value: line 236 tests only that
  it is truthy. Inside the template literal of the prompt it is converted to a string.
  An array is joined with commas, \<open>null\<close> elements giving the empty string; an object
  gives \<open>[object Object]\<close>, unless it has a member \<open>toString\<close> of its own, which
  is not a function: then the conversion throws (\<open>None\<close>).
\<close>

fun value_text :: "runtime \<Rightarrow> json \<Rightarrow> string option" where
  "value_text rt JNull = Some ''null''"
| "value_text rt (JBool b) = Some (if b then ''true'' else ''false'')"
| "value_text rt (JNumber n) = Some (number_text rt n)"
| "value_text rt (JString s) = Some s"
| "value_text rt (JArray xs) =
     map_option (join '','')
       (those (map (\<lambda>x. if x = JNull then Some [] else value_text rt x) xs))"
| "value_text rt (JObject members) =
     (if map_of (rev members) ''toString'' = None then Some ''[object Object]'' else None)"

text \<open>
  The \<open>catch\<close> of lines 335 to 341 calls the advice engine with the message. Line 359
  calls \<open>toLowerCase\<close> on it, which only a string has: with any other message the
  engine throws, inside the \<open>catch\<close> of a callback, and the handler sends nothing.
\<close>

definition fallback :: "runtime \<Rightarrow> json \<Rightarrow> user \<Rightarrow> expense list \<Rightarrow> chat_reply" where
  "fallback rt message u expenses =
     (case message of
        JString question \<Rightarrow> Response (generateMockAIResponse rt question u expenses)
      | _ \<Rightarrow> No_response)"

text \<open>
  Lines 310 to 331, on what \<open>fetch\<close> gave. Everything thrown here reaches the
  \<open>catch\<close>: a rejected \<open>fetch\<close>, a response that is not \<open>ok\<close> (whether its body
  parses or not), a body that does not parse, and the \<open>TypeError\<close> of calling
  \<open>trim\<close> on a value that is not a string.
\<close>

definition chat_attempt ::
  "runtime \<Rightarrow> fetch_outcome \<Rightarrow> json \<Rightarrow> user \<Rightarrow> expense list \<Rightarrow> chat_reply" where
  "chat_attempt rt outcome message u expenses =
     (case outcome of
        Fetch_failed \<Rightarrow> fallback rt message u expenses
      | Http_response ok b \<Rightarrow>
          if \<not> ok then fallback rt message u expenses
          else
            (case b of
               Unparseable \<Rightarrow> fallback rt message u expenses
             | Json geminiData \<Rightarrow>
                 (let aiResponse = extract_text geminiData
                  in if truthy aiResponse then
                       (case aiResponse of
                          Some (JString s) \<Rightarrow> Response (trim rt s)
                        | _ \<Rightarrow> fallback rt message u expenses)
                     else Response apology)))"

text \<open>
  The handler. \<open>gemini_key\<close> is \<open>process.env.GEMINI_API_KEY\<close>; \<open>fetch\<close> is the
  service, from the key and the prompt to what comes back; \<open>message\<close> is the field of
  the request body, \<open>None\<close> when the body has none. The prompt is built inside the
  \<open>try\<close>, so a message that cannot be converted leads to the \<open>catch\<close> as well.
\<close>

definition key_missing :: string where
  "key_missing =
     ''Gemini API key not configured. Please add GEMINI_API_KEY to your .env file.''"

definition chat_handler ::
  "runtime \<Rightarrow> string option \<Rightarrow> (string \<Rightarrow> string \<Rightarrow> fetch_outcome) \<Rightarrow> json option
   \<Rightarrow> string + user option \<Rightarrow> string + expense list \<Rightarrow> chat_reply" where
  "chat_handler rt gemini_key fetch message user_query expense_query =
     (case message of
        None \<Rightarrow> Error_reply (Http_error 400 ''Message is required'')
      | Some m \<Rightarrow>
          if \<not> truthy (Some m) then Error_reply (Http_error 400 ''Message is required'')
          else
            (case gemini_key of
               None \<Rightarrow> Error_reply (Http_error 500 key_missing)
             | Some k \<Rightarrow>
                 if k = [] then Error_reply (Http_error 500 key_missing)
                 else
                   (case user_query of
                      Inl err \<Rightarrow> Error_reply (Http_error 500 err)
                    | Inr None \<Rightarrow> Error_reply (Http_error 404 ''User not found'')
                    | Inr (Some u) \<Rightarrow>
                        (case expense_query of
                           Inl err \<Rightarrow> Error_reply (Http_error 500 err)
                         | Inr rows \<Rightarrow>
                             (let expenses = recent_expenses_query rows;
                                  context = financialContext rt u expenses
                              in case value_text rt m of
                                   None \<Rightarrow> fallback rt m u expenses
                                 | Some asked \<Rightarrow>
                                     chat_attempt rt (fetch k (prompt context asked)) m u
                                       expenses)))))"

section \<open>Creating an expense: \<open>POST /api/expenses\<close>\<close>

text \<open>
  A field of the request body: absent, \<open>null\<close>, a boolean, a number or a string
  (arrays and objects as fields are not part of this model).
\<close>

datatype field = Absent | Null | Boolean bool | Numeric rat | Text string

definition falsy :: "field \<Rightarrow> bool" where
  "falsy v =
     (case v of
        Absent \<Rightarrow> True
      | Null \<Rightarrow> True
      | Boolean b \<Rightarrow> \<not> b
      | Numeric n \<Rightarrow> n = 0
      | Text s \<Rightarrow> s = [])"

text \<open>The number that \<open><=\<close> compares.\<close>

definition to_number :: "runtime \<Rightarrow> field \<Rightarrow> jsnum" where
  "to_number rt v =
     (case v of
        Absent \<Rightarrow> NaN
      | Null \<Rightarrow> Number 0
      | Boolean b \<Rightarrow> Number (if b then 1 else 0)
      | Numeric n \<Rightarrow> Number n
      | Text s \<Rightarrow> string_number rt s)"

text \<open>\<open>x <= 0\<close>: false when \<open>x\<close> is \<open>NaN\<close>.\<close>

definition le_zero :: "jsnum \<Rightarrow> bool" where
  "le_zero x =
     (case x of
        Number n \<Rightarrow> n \<le> 0
      | NegInfinity \<Rightarrow> True
      | Infinity \<Rightarrow> False
      | NaN \<Rightarrow> False)"

text \<open>The parameters of the \<open>INSERT\<close> of line 140.\<close>

record insert_expense =
  ins_user_id :: nat
  ins_name :: field
  ins_amount :: field
  ins_category :: field
  ins_date :: string

text \<open>
  The handler up to its call of the store: a 400, or the \<open>INSERT\<close> that it runs.
  \<open>now\<close> is \<open>new Date().toISOString()\<close>.
\<close>

definition create_expense ::
  "runtime \<Rightarrow> nat \<Rightarrow> string \<Rightarrow> field \<Rightarrow> field \<Rightarrow> field \<Rightarrow> http_error + insert_expense" where
  "create_expense rt userId now name' amount' category' =
     (if falsy name' \<or> falsy amount' \<or> le_zero (to_number rt amount') then
        Inl (Http_error 400 ''Valid name and amount are required'')
      else
        Inr \<lparr> ins_user_id = userId,
              ins_name = name',
              ins_amount = amount',
              ins_category = (if falsy category' then Text ''other'' else category'),
              ins_date = now \<rparr>)"

section \<open>Statistics on what the store may hold\<close>

text \<open>
  The register and settings routes write \<open>monthly_income\<close> and \<open>savings_goal\<close> as
  they come in the request body, with no check. A row may therefore hold, besides
  \<open>NULL\<close> and a finite number, an infinite number (the JSON number \<open>1e999\<close>) or a
  text. The callback of the statistics is modelled on such rows here; \<open>stats_body\<close>
  above is the same callback on the rows that hold \<open>NULL\<close> or a finite number.
\<close>

datatype stored = Stored_null | Stored_number jsnum | Stored_text string

record user_row =
  row_monthly_income :: stored
  row_savings_goal :: stored

definition stored_falsy :: "stored \<Rightarrow> bool" where
  "stored_falsy v =
     (case v of
        Stored_null \<Rightarrow> True
      | Stored_number x \<Rightarrow> x = Number 0 \<or> x = NaN
      | Stored_text s \<Rightarrow> s = [])"

text \<open>The number that arithmetic and comparison take a stored value for.\<close>

definition stored_number :: "runtime \<Rightarrow> stored \<Rightarrow> jsnum" where
  "stored_number rt v =
     (case v of
        Stored_null \<Rightarrow> Number 0
      | Stored_number x \<Rightarrow> x
      | Stored_text s \<Rightarrow> string_number rt s)"

text \<open>\<open>x - t\<close> with a finite \<open>t\<close>.\<close>

definition js_minus :: "jsnum \<Rightarrow> rat \<Rightarrow> jsnum" where
  "js_minus x t =
     (case x of
        Number a \<Rightarrow> Number (a - t)
      | Infinity \<Rightarrow> Infinity
      | NegInfinity \<Rightarrow> NegInfinity
      | NaN \<Rightarrow> NaN)"

text \<open>\<open>Math.max(0, x)\<close>.\<close>

definition js_max_zero :: "jsnum \<Rightarrow> jsnum" where
  "js_max_zero x =
     (case x of
        Number a \<Rightarrow> Number (max 0 a)
      | Infinity \<Rightarrow> Infinity
      | NegInfinity \<Rightarrow> Number 0
      | NaN \<Rightarrow> NaN)"

text \<open>\<open>x > 0\<close>.\<close>

definition js_positive :: "jsnum \<Rightarrow> bool" where
  "js_positive x =
     (case x of
        Number a \<Rightarrow> 0 < a
      | Infinity \<Rightarrow> True
      | NegInfinity \<Rightarrow> False
      | NaN \<Rightarrow> False)"

text \<open>\<open>x / y\<close>. The sign of a zero is not modelled: \<open>Number 0\<close> is the positive one.\<close>

definition js_quotient :: "jsnum \<Rightarrow> jsnum \<Rightarrow> jsnum" where
  "js_quotient x y =
     (case x of
        NaN \<Rightarrow> NaN
      | Number a \<Rightarrow>
          (case y of
             NaN \<Rightarrow> NaN
           | Number b \<Rightarrow> js_div a b
           | Infinity \<Rightarrow> Number 0
           | NegInfinity \<Rightarrow> Number 0)
      | Infinity \<Rightarrow>
          (case y of
             NaN \<Rightarrow> NaN
           | Number b \<Rightarrow> if b < 0 then NegInfinity else Infinity
           | Infinity \<Rightarrow> NaN
           | NegInfinity \<Rightarrow> NaN)
      | NegInfinity \<Rightarrow>
          (case y of
             NaN \<Rightarrow> NaN
           | Number b \<Rightarrow> if b < 0 then Infinity else NegInfinity
           | Infinity \<Rightarrow> NaN
           | NegInfinity \<Rightarrow> NaN))"

record stats_reply =
  reply_monthly_income :: stored
  reply_savings_goal :: stored
  reply_total_expenses :: rat
  reply_saved_amount :: jsnum
  reply_goal_percentage :: jsnum
  reply_category_totals :: "(string \<times> rat) list"

text \<open>Lines 214 to 225.\<close>

definition stats_body_stored ::
  "runtime \<Rightarrow> user_row \<Rightarrow> (string \<times> rat) list \<Rightarrow> stats_reply" where
  "stats_body_stored rt row categoryTotals =
     (let totalExpenses = foldl (\<lambda>sum cat. sum + snd cat) 0 categoryTotals;
          saved =
            js_max_zero
              (js_minus
                 (stored_number rt
                    (if stored_falsy (row_monthly_income row) then Stored_number (Number 0)
                     else row_monthly_income row))
                 totalExpenses);
          goalPercentage =
            (if js_positive (stored_number rt (row_savings_goal row)) then
               js_min 100
                 (js_times (js_quotient saved (stored_number rt (row_savings_goal row))) 100)
             else Number 0)
      in \<lparr> reply_monthly_income = row_monthly_income row,
           reply_savings_goal = row_savings_goal row,
           reply_total_expenses = totalExpenses,
           reply_saved_amount = saved,
           reply_goal_percentage = goalPercentage,
           reply_category_totals = categoryTotals \<rparr>)"

definition stats_handler_stored ::
  "runtime \<Rightarrow> string + user_row option \<Rightarrow> string + expense list
   \<Rightarrow> http_error + stats_reply" where
  "stats_handler_stored rt user_query expense_query =
     (case user_query of
        Inl err \<Rightarrow> Inl (Http_error 500 err)
      | Inr None \<Rightarrow> Inl (Http_error 404 ''User not found'')
      | Inr (Some row) \<Rightarrow>
          (case expense_query of
             Inl err \<Rightarrow> Inl (Http_error 500 err)
           | Inr rows \<Rightarrow> Inr (stats_body_stored rt row (category_totals_query rows))))"

text \<open>A row of the first kind as a row of the second.\<close>

definition stored_of :: "rat option \<Rightarrow> stored" where
  "stored_of v = (case v of None \<Rightarrow> Stored_null | Some x \<Rightarrow> Stored_number (Number x))"

definition row_of :: "user \<Rightarrow> user_row" where
  "row_of u =
     \<lparr> row_monthly_income = stored_of (monthly_income u),
       row_savings_goal = stored_of (savings_goal u) \<rparr>"

section \<open>The advice engine on a store\<close>

text \<open>
  The arguments \<open>user\<close> and \<open>expenses\<close> are references: to the row of the user, and to
  an array of references to expense rows. The store below holds these objects and the
  object that the engine creates, so that what the engine writes, and where, is a
  statement about the store. The address \<open>next_addr\<close> is the next one to be allocated.
\<close>

type_synonym addr = nat

datatype object =
    User_row user
  | Expense_row expense
  | Array_of "addr list"
  | Plain_object "(string \<times> cell) list"

record heap =
  objects :: "addr \<Rightarrow> object option"
  next_addr :: addr

definition deref_user :: "heap \<Rightarrow> addr \<Rightarrow> user option" where
  "deref_user h a = (case objects h a of Some (User_row u) \<Rightarrow> Some u | _ \<Rightarrow> None)"

definition deref_expense :: "heap \<Rightarrow> addr \<Rightarrow> expense option" where
  "deref_expense h a = (case objects h a of Some (Expense_row e) \<Rightarrow> Some e | _ \<Rightarrow> None)"

definition deref_expenses :: "heap \<Rightarrow> addr \<Rightarrow> expense list option" where
  "deref_expenses h a =
     (case objects h a of
        Some (Array_of refs) \<Rightarrow> those (map (deref_expense h) refs)
      | _ \<Rightarrow> None)"

text \<open>\<open>const categories = {}\<close>.\<close>

definition new_object :: "heap \<Rightarrow> addr \<times> heap" where
  "new_object h =
     (next_addr h,
      h\<lparr> objects := (objects h)(next_addr h \<mapsto> Plain_object []),
         next_addr := Suc (next_addr h) \<rparr>)"

text \<open>The callback of \<open>forEach\<close>, writing to the object at \<open>c\<close>.\<close>

definition assign_category :: "runtime \<Rightarrow> addr \<Rightarrow> heap \<Rightarrow> expense \<Rightarrow> heap" where
  "assign_category rt c h ex =
     (case objects h c of
        Some (Plain_object props) \<Rightarrow>
          h\<lparr> objects := (objects h)(c \<mapsto> Plain_object (add_expense rt props ex)) \<rparr>
      | _ \<Rightarrow> h)"

text \<open>\<open>expenses.forEach\<close>: each element is read from the store when its turn comes.\<close>

fun forEach_assign :: "runtime \<Rightarrow> addr \<Rightarrow> addr list \<Rightarrow> heap \<Rightarrow> heap option" where
  "forEach_assign rt c [] h = Some h"
| "forEach_assign rt c (r # refs) h =
     (case deref_expense h r of
        None \<Rightarrow> None
      | Some ex \<Rightarrow> forEach_assign rt c refs (assign_category rt c h ex))"

text \<open>
  The function, from the store before the call to its result and the store after it;
  \<open>None\<close> when the arguments do not refer to a user row and an array of expense rows.
\<close>

definition generateMockAIResponse_heap ::
  "runtime \<Rightarrow> string \<Rightarrow> addr \<Rightarrow> addr \<Rightarrow> heap \<Rightarrow> (string \<times> heap) option" where
  "generateMockAIResponse_heap rt question user_ref expenses_ref h =
     (case deref_user h user_ref of
        None \<Rightarrow> None
      | Some u \<Rightarrow>
          (case objects h expenses_ref of
             Some (Array_of refs) \<Rightarrow>
               (case those (map (deref_expense h) refs) of
                  None \<Rightarrow> None
                | Some rows \<Rightarrow>
                    (let income = or_zero (monthly_income u);
                         goal = or_zero (savings_goal u);
                         totalExpenses = foldl (\<lambda>sum ex. sum + amount ex) 0 rows;
                         saved = max 0 (income - totalExpenses);
                         q = toLowerCase question
                     in if includes_str q ''save'' \<or> includes_str q ''saving'' then
                          Some (savings_advice rt income saved goal, h)
                        else if includes_str q ''budget'' \<or> includes_str q ''spend'' then
                          (case forEach_assign rt (fst (new_object h)) refs (snd (new_object h)) of
                             None \<Rightarrow> None
                           | Some h' \<Rightarrow>
                               (case objects h' (fst (new_object h)) of
                                  Some (Plain_object categories) \<Rightarrow>
                                    Some (breakdown rt categories, h')
                                | _ \<Rightarrow> None))
                        else if includes_str q ''invest'' \<or> includes_str q ''grow'' then
                          Some (investment_advice rt income totalExpenses, h)
                        else if includes_str q ''debt'' \<or> includes_str q ''loan'' then
                          Some (debt_advice, h)
                        else
                          Some (generic_advice rt question income totalExpenses saved goal, h)))
           | _ \<Rightarrow> None))"

text \<open>Nothing is stored at or beyond the next address to be allocated.\<close>

definition heap_ok :: "heap \<Rightarrow> bool" where
  "heap_ok h \<longleftrightarrow> (\<forall>a. next_addr h \<le> a \<longrightarrow> objects h a = None)"

section \<open>The words of the specification\<close>

text \<open>
  A keyword is matched case-insensitively: at some position of the question stand the
  letters of the keyword, in either case.
\<close>

fun mentions :: "string \<Rightarrow> string \<Rightarrow> bool" where
  "mentions [] kw = (kw = [])"
| "mentions (c # cs) kw =
     (map lower_char (take (length kw) (c # cs)) = map lower_char kw \<or> mentions cs kw)"

text \<open>
  The budget listing as the specification words it: each distinct category once, in
  the order of first appearance, with the sum of the amounts of its expenses.
\<close>

definition first_appearances :: "expense list \<Rightarrow> string list" where
  "first_appearances expenses = rev (remdups (rev (map category expenses)))"

definition category_sum :: "expense list \<Rightarrow> string \<Rightarrow> rat" where
  "category_sum expenses c = sum_list (map amount (filter (\<lambda>e. category e = c) expenses))"

definition listing :: "runtime \<Rightarrow> expense list \<Rightarrow> string list \<Rightarrow> string" where
  "listing rt expenses cs =
     ''Your spending breakdown:\<newline>''
     @ concat (map (\<lambda>c. bullet @ '' '' @ c @ '': '' @ rupee
                        @ number_text rt (category_sum expenses c) @ ''\<newline>'') cs)
     @ ''\<newline>Try the 50/30/20 rule: 50% needs, 30% wants, 20% savings.''"

definition spec_budget_advice :: "runtime \<Rightarrow> expense list \<Rightarrow> string" where
  "spec_budget_advice rt expenses = listing rt expenses (first_appearances expenses)"

text \<open>
  The order in which the code lists them: the categories that are array indices first,
  by ascending index, then the others in the order of first appearance.
\<close>

definition listing_order :: "expense list \<Rightarrow> string list" where
  "listing_order expenses =
     sort_key numeral_value (filter is_array_index (first_appearances expenses))
     @ filter (\<lambda>c. \<not> is_array_index c) (first_appearances expenses)"

text \<open>A category that a plain object inherits a property for.\<close>

definition inherited_name :: "string \<Rightarrow> bool" where
  "inherited_name c \<longleftrightarrow> c = ''__proto__'' \<or> c \<in> set object_prototype_functions"


text \<open>
  The total of the five most recent expenses at most, and what is saved against it.
\<close>

definition recent_total :: "expense list \<Rightarrow> rat" where
  "recent_total rows = sum_list (map amount (take 5 rows))"

definition recent_saved :: "user \<Rightarrow> expense list \<Rightarrow> rat" where
  "recent_saved u rows = max 0 (or_zero (monthly_income u) - recent_total rows)"

text \<open>
  A stored value that is missing or a finite number, and the number it stands for
  (0 when it is missing).
\<close>

definition finite_or_missing :: "stored \<Rightarrow> bool" where
  "finite_or_missing v =
     (case v of
        Stored_null \<Rightarrow> True
      | Stored_number (Number x) \<Rightarrow> True
      | _ \<Rightarrow> False)"

definition finite_value :: "stored \<Rightarrow> rat" where
  "finite_value v = (case v of Stored_number (Number x) \<Rightarrow> x | _ \<Rightarrow> 0)"

section \<open>A runtime for the examples\<close>

text \<open>
  The examples below need a runtime to run in. This one writes an integer as
  JavaScript does, in decimal digits (and takes the integer part of any other number,
  which no example renders), writes one decimal for \<open>toFixed(1)\<close>, trims spaces, and
  converts a string of digits, with a sign or without, to its number, the empty string
  to 0 and any other string to \<open>NaN\<close>.
\<close>

function decimal :: "int \<Rightarrow> string" where
  "decimal n =
     (if n < 10 then [char_of (48 + n)]
      else decimal (n div 10) @ [char_of (48 + n mod 10)])"
  by pat_completeness auto
termination
  by (relation "measure nat") auto

declare decimal.simps [simp del]

definition integer_text :: "rat \<Rightarrow> string" where
  "integer_text r = (if r < 0 then ''-'' else []) @ decimal \<bar>\<lfloor>r\<rfloor>\<bar>"

definition one_decimal_text :: "rat \<Rightarrow> string" where
  "one_decimal_text r =
     (let tenths = \<lfloor>\<bar>r\<bar> * 10 + 1 / 2\<rfloor>
      in (if r < 0 then ''-'' else []) @ decimal (tenths div 10) @ ''.''
         @ decimal (tenths mod 10))"

definition trim_spaces :: "string \<Rightarrow> string" where
  "trim_spaces s =
     rev (dropWhile (\<lambda>c. c = CHR '' '') (rev (dropWhile (\<lambda>c. c = CHR '' '') s)))"

definition digits_number :: "string \<Rightarrow> jsnum" where
  "digits_number s =
     (case s of
        [] \<Rightarrow> Number 0
      | c # cs \<Rightarrow>
          if c = CHR ''-'' \<and> cs \<noteq> [] \<and> list_all is_digit cs
          then Number (- of_int (numeral_value cs))
          else if c = CHR ''+'' \<and> cs \<noteq> [] \<and> list_all is_digit cs
          then Number (of_int (numeral_value cs))
          else if list_all is_digit s then Number (of_int (numeral_value s))
          else NaN)"

definition example_runtime :: runtime where
  "example_runtime =
     \<lparr> number_text = integer_text,
       fixed1_text = one_decimal_text,
       function_text = (\<lambda>k. ''function '' @ k @ ''() { [native code] }''),
       trim = trim_spaces,
       string_number = digits_number \<rparr>"

section \<open>Properties of the statistics\<close>

lemma sum_add_to_group:
  "sum_list (map snd (add_to_group c a groups)) = sum_list (map snd groups) + a"
  by (induction c a groups rule: add_to_group.induct) auto

lemma sum_grouped:
  "sum_list (map snd (foldl (\<lambda>groups e. add_to_group (category e) (amount e) groups) acc rows))
     = sum_list (map snd acc) + sum_list (map amount rows)"
  by (induction rows arbitrary: acc) (auto simp: sum_add_to_group)

lemma reduce_totals:
  "foldl (\<lambda>sum cat. sum + snd cat) z totals = z + sum_list (map snd totals)"
  by (induction totals arbitrary: z) (auto simp: add.assoc)

lemma reduce_amounts:
  "foldl (\<lambda>sum ex. sum + amount ex) z expenses = z + sum_list (map amount expenses)"
  by (induction expenses arbitrary: z) (auto simp: add.assoc)




text \<open>
  On a row that holds \<open>NULL\<close> or finite numbers the two models of the callback agree.
\<close>

lemma stats_body_agrees:
  "stats_body_stored rt (row_of u) totals =
     \<lparr> reply_monthly_income = stored_of (monthly_income u),
       reply_savings_goal = stored_of (savings_goal u),
       reply_total_expenses = total_expenses (stats_body u totals),
       reply_saved_amount = Number (saved_amount (stats_body u totals)),
       reply_goal_percentage = goal_percentage (stats_body u totals),
       reply_category_totals = totals \<rparr>"
  by (cases "monthly_income u"; cases "savings_goal u")
    (simp_all add: stats_body_stored_def stats_body_def row_of_def stored_of_def Let_def
      stored_falsy_def stored_number_def js_minus_def js_max_zero_def js_positive_def
      js_quotient_def or_zero_def)

lemma stored_total:
  "reply_total_expenses (stats_body_stored rt row (category_totals_query rows))
     = sum_list (map amount rows)"
  by (simp add: stats_body_stored_def Let_def category_totals_query_def reduce_totals
      sum_grouped)

lemma stored_saved_finite:
  assumes "finite_or_missing (row_monthly_income row)"
  shows "reply_saved_amount (stats_body_stored rt row (category_totals_query rows))
     = Number (max 0 (finite_value (row_monthly_income row) - sum_list (map amount rows)))"
proof -
  have total: "foldl (\<lambda>sum cat. sum + snd cat) 0 (category_totals_query rows)
      = sum_list (map amount rows)"
    by (simp add: category_totals_query_def reduce_totals sum_grouped)
  from assms show ?thesis
    by (auto simp: stats_body_stored_def Let_def total finite_or_missing_def finite_value_def
        stored_falsy_def stored_number_def js_minus_def js_max_zero_def
        split: stored.splits jsnum.splits)
qed

lemma percentage_of_finite:
  assumes "finite_or_missing g"
  shows "(if js_positive (stored_number rt g) then
            js_min 100 (js_times (js_quotient (Number saved) (stored_number rt g)) 100)
          else Number 0)
     = Number (if finite_value g \<le> 0 then 0 else min 100 (saved / finite_value g * 100))"
  using assms
  by (auto simp: finite_or_missing_def finite_value_def stored_number_def js_positive_def
      js_quotient_def js_div_def js_times_def js_min_def split: stored.splits jsnum.splits)

lemma stored_percentage_finite:
  assumes "reply_saved_amount (stats_body_stored rt row totals) = Number saved"
    and "finite_or_missing (row_savings_goal row)"
  shows "reply_goal_percentage (stats_body_stored rt row totals)
     = Number (if finite_value (row_savings_goal row) \<le> 0 then 0
               else min 100 (saved / finite_value (row_savings_goal row) * 100))"
proof -
  have "reply_goal_percentage (stats_body_stored rt row totals)
      = (if js_positive (stored_number rt (row_savings_goal row)) then
           js_min 100 (js_times (js_quotient (reply_saved_amount (stats_body_stored rt row totals))
             (stored_number rt (row_savings_goal row))) 100)
         else Number 0)"
    by (simp add: stats_body_stored_def Let_def)
  also have "\<dots> = (if js_positive (stored_number rt (row_savings_goal row)) then
           js_min 100 (js_times (js_quotient (Number saved)
             (stored_number rt (row_savings_goal row))) 100)
         else Number 0)"
    by (simp only: assms(1))
  also have "\<dots> = Number (if finite_value (row_savings_goal row) \<le> 0 then 0
               else min 100 (saved / finite_value (row_savings_goal row) * 100))"
    by (rule percentage_of_finite [OF assms(2)])
  finally show ?thesis .
qed

text \<open>
  Claim C2, as amended. For every income and every savings goal that is missing or a
  finite number (zero and negative ones included) and every list of expenses of the
  month, the statistics operation answers with a snapshot, never an error; its goal
  percentage is the number 0 when the goal is missing or at most 0 and
  \<open>min(100, saved_amount / goal * 100)\<close> otherwise, a finite number between 0 and 100
  and so not \<open>NaN\<close>.
\<close>

theorem stats_goal_percentage_finite:
  assumes "finite_or_missing (row_monthly_income row)"
    and "finite_or_missing (row_savings_goal row)"
  shows "\<exists>s p. stats_handler_stored rt (Inr (Some row)) (Inr rows) = Inr s
     \<and> reply_saved_amount s
         = Number (max 0 (finite_value (row_monthly_income row) - sum_list (map amount rows)))
     \<and> p = (if finite_value (row_savings_goal row) \<le> 0 then 0
            else min 100
                   (max 0 (finite_value (row_monthly_income row) - sum_list (map amount rows))
                    / finite_value (row_savings_goal row) * 100))
     \<and> reply_goal_percentage s = Number p \<and> 0 \<le> p \<and> p \<le> 100"
proof -
  let ?s = "stats_body_stored rt row (category_totals_query rows)"
  let ?saved = "max 0 (finite_value (row_monthly_income row) - sum_list (map amount rows))"
  let ?p = "if finite_value (row_savings_goal row) \<le> 0 then 0
            else min 100 (?saved / finite_value (row_savings_goal row) * 100)"
  have ret: "stats_handler_stored rt (Inr (Some row)) (Inr rows) = Inr ?s"
    by (simp add: stats_handler_stored_def)
  have saved: "reply_saved_amount ?s = Number ?saved"
    by (rule stored_saved_finite [OF assms(1)])
  have pct: "reply_goal_percentage ?s = Number ?p"
    by (rule stored_percentage_finite [OF saved assms(2)])
  have "0 \<le> ?saved" by simp
  then have range: "0 \<le> ?p \<and> ?p \<le> 100"
    by (auto simp: not_le)
  from ret saved pct range show ?thesis by blast
qed

text \<open>
  The example of the specification: income 50000, one expense of 10000, goal 20000.
\<close>

theorem stats_goal_percentage_example:
  "\<exists>s. stats_handler_stored example_runtime
          (Inr (Some \<lparr>row_monthly_income = Stored_number (Number 50000),
                       row_savings_goal = Stored_number (Number 20000)\<rparr>))
          (Inr [\<lparr>name = ''lunch'', amount = 10000, category = ''food''\<rparr>]) = Inr s
     \<and> reply_total_expenses s = 10000 \<and> reply_saved_amount s = Number 40000
     \<and> reply_goal_percentage s = Number 100"
proof -
  let ?row = "\<lparr>row_monthly_income = Stored_number (Number 50000),
                       row_savings_goal = Stored_number (Number 20000)\<rparr>"
  have i: "finite_or_missing (row_monthly_income ?row)"
    and g: "finite_or_missing (row_savings_goal ?row)"
    by (simp_all add: finite_or_missing_def)
  from stats_goal_percentage_finite [OF i g, of example_runtime
      "[\<lparr>name = ''lunch'', amount = 10000, category = ''food''\<rparr>]"]
  show ?thesis
    by (auto simp: finite_value_def stats_handler_stored_def stored_total)
qed

text \<open>
  Claim C2 as stated fails: the settings route stores the JSON number \<open>1e999\<close> as it
  comes, an infinite number; with such an income and such a goal the saved amount is
  infinite and the goal percentage is \<open>NaN\<close>.
\<close>

theorem stats_goal_percentage_counterexample:
  "stats_handler_stored example_runtime
     (Inr (Some \<lparr>row_monthly_income = Stored_number Infinity,
                  row_savings_goal = Stored_number Infinity\<rparr>))
     (Inr [])
   = Inr \<lparr> reply_monthly_income = Stored_number Infinity,
           reply_savings_goal = Stored_number Infinity,
           reply_total_expenses = 0,
           reply_saved_amount = Infinity,
           reply_goal_percentage = NaN,
           reply_category_totals = [] \<rparr>"
  by (simp add: stats_handler_stored_def stats_body_stored_def category_totals_query_def
      Let_def stored_falsy_def stored_number_def js_minus_def js_max_zero_def js_positive_def
      js_quotient_def js_times_def js_min_def)

text \<open>The same with an income that is text and a goal of 100.\<close>

lemma stats_text_income:
  "reply_goal_percentage
     (stats_body_stored example_runtime
        \<lparr>row_monthly_income = Stored_text ''abc'',
         row_savings_goal = Stored_number (Number 100)\<rparr>
        (category_totals_query [])) = NaN"
  by (simp add: stats_body_stored_def category_totals_query_def
      Let_def stored_falsy_def stored_number_def js_minus_def js_max_zero_def js_positive_def
      js_quotient_def js_times_def js_min_def example_runtime_def digits_number_def
      is_digit_def)

text \<open>The total and the saved amount on such rows, whatever the goal holds.\<close>

lemma stats_saved_amount_stored:
  assumes "row_monthly_income row = Stored_number (Number I)" and "0 \<le> I"
  shows "reply_total_expenses (stats_body_stored rt row (category_totals_query E))
           = sum_list (map amount E)
     \<and> reply_saved_amount (stats_body_stored rt row (category_totals_query E))
           = Number (max 0 (I - sum_list (map amount E)))"
  using assms stored_saved_finite [of row rt E]
  by (simp add: stored_total finite_or_missing_def finite_value_def)



section \<open>Properties of the advice engine\<close>

subsection \<open>Keywords and their order\<close>

lemma mentions_lower:
  "mentions question kw = includes_str (toLowerCase question) (toLowerCase kw)"
proof (induction question)
  case Nil
  show ?case by (auto simp: toLowerCase_def)
next
  case (Cons c cs)
  have "take (length kw) (lower_char c # map lower_char cs)
          = map lower_char (take (length kw) (c # cs))"
    using take_map [of "length kw" lower_char "c # cs"] by simp
  with Cons show ?case by (simp add: toLowerCase_def)
qed

lemma mentions_iff:
  "mentions question kw \<longleftrightarrow>
     (\<exists>before word after. question = before @ word @ after
        \<and> length word = length kw \<and> map lower_char word = map lower_char kw)"
proof (induction question)
  case Nil
  then show ?case by auto
next
  case (Cons c cs)
  show ?case
  proof
    assume "mentions (c # cs) kw"
    then consider "map lower_char (take (length kw) (c # cs)) = map lower_char kw"
      | "mentions cs kw" by auto
    then show "\<exists>before word after. c # cs = before @ word @ after
        \<and> length word = length kw \<and> map lower_char word = map lower_char kw"
    proof cases
      case 1
      then have "length (take (length kw) (c # cs)) = length kw"
        by (metis length_map)
      with 1 show ?thesis
        by (metis append_Nil append_take_drop_id)
    next
      case 2
      with Cons.IH obtain b w a where "cs = b @ w @ a" "length w = length kw"
        "map lower_char w = map lower_char kw" by blast
      then have "c # cs = (c # b) @ w @ a" by simp
      with \<open>length w = length kw\<close> \<open>map lower_char w = map lower_char kw\<close>
      show ?thesis by blast
    qed
  next
    assume "\<exists>before word after. c # cs = before @ word @ after
        \<and> length word = length kw \<and> map lower_char word = map lower_char kw"
    then obtain b w a where dec: "c # cs = b @ w @ a" and len: "length w = length kw"
      and eq: "map lower_char w = map lower_char kw" by blast
    show "mentions (c # cs) kw"
    proof (cases b)
      case Nil
      with dec len have "take (length kw) (c # cs) = w" by simp
      with eq show ?thesis by simp
    next
      case (Cons b0 bs)
      with dec have "cs = bs @ w @ a" by simp
      with len eq Cons.IH have "mentions cs kw" by blast
      then show ?thesis by simp
    qed
  qed
qed

lemma keywords_lower:
  "toLowerCase ''save'' = ''save''" "toLowerCase ''saving'' = ''saving''"
  "toLowerCase ''budget'' = ''budget''" "toLowerCase ''spend'' = ''spend''"
  "toLowerCase ''invest'' = ''invest''" "toLowerCase ''grow'' = ''grow''"
  "toLowerCase ''debt'' = ''debt''" "toLowerCase ''loan'' = ''loan''"
  by (simp_all add: toLowerCase_def lower_char_def)

lemma dispatch:
  "generateMockAIResponse rt question u expenses =
     (let income = or_zero (monthly_income u);
          goal = or_zero (savings_goal u);
          total = sum_list (map amount expenses);
          saved = max 0 (income - total)
      in if mentions question ''save'' \<or> mentions question ''saving'' then
           savings_advice rt income saved goal
         else if mentions question ''budget'' \<or> mentions question ''spend'' then
           budget_advice rt expenses
         else if mentions question ''invest'' \<or> mentions question ''grow'' then
           investment_advice rt income total
         else if mentions question ''debt'' \<or> mentions question ''loan'' then
           debt_advice
         else
           generic_advice rt question income total saved goal)"
  by (simp add: generateMockAIResponse_def Let_def mentions_lower keywords_lower reduce_amounts)

text \<open>
  Claim C4. For every question, the advice engine matches the keywords
  case-insensitively and in the order savings (save, saving), budget (budget, spend),
  investment (invest, grow), debt (debt, loan), generic: the first set with a match
  decides the template. So a question that mentions both \<open>save\<close> and \<open>budget\<close> gets
  the savings template.
\<close>

theorem advice_priority:
  "generateMockAIResponse rt question u expenses =
     (let income = or_zero (monthly_income u);
          goal = or_zero (savings_goal u);
          total = sum_list (map amount expenses);
          saved = max 0 (income - total)
      in if mentions question ''save'' \<or> mentions question ''saving'' then
           savings_advice rt income saved goal
         else if mentions question ''budget'' \<or> mentions question ''spend'' then
           budget_advice rt expenses
         else if mentions question ''invest'' \<or> mentions question ''grow'' then
           investment_advice rt income total
         else if mentions question ''debt'' \<or> mentions question ''loan'' then
           debt_advice
         else
           generic_advice rt question income total saved goal)
   \<and> (mentions question ''save'' \<and> mentions question ''budget'' \<longrightarrow>
        generateMockAIResponse rt question u expenses =
          savings_advice rt (or_zero (monthly_income u))
            (max 0 (or_zero (monthly_income u) - sum_list (map amount expenses)))
            (or_zero (savings_goal u)))"
  by (simp add: dispatch Let_def)

text \<open>A question in mixed case with both keywords.\<close>

theorem advice_priority_example:
  "mentions ''How do I SAVE on a Budget?'' ''save''
   \<and> mentions ''How do I SAVE on a Budget?'' ''budget''
   \<and> generateMockAIResponse example_runtime ''How do I SAVE on a Budget?''
         \<lparr>monthly_income = Some 50000, savings_goal = Some 20000\<rparr>
         [\<lparr>name = ''rent'', amount = 500, category = ''housing''\<rparr>]
       = savings_advice example_runtime 50000 49500 20000"
proof -
  have s: "mentions ''How do I SAVE on a Budget?'' ''save''" by code_simp
  have b: "mentions ''How do I SAVE on a Budget?'' ''budget''" by code_simp
  from s b advice_priority [of example_runtime "''How do I SAVE on a Budget?''"
      "\<lparr>monthly_income = Some 50000, savings_goal = Some 20000\<rparr>"
      "[\<lparr>name = ''rent'', amount = 500, category = ''housing''\<rparr>]"]
  show ?thesis by (simp add: or_zero_def)
qed

text \<open>
  Claim C8. For every question that reaches the investment keywords (it mentions
  \<open>invest\<close> or \<open>grow\<close> and none of the savings and budget keywords), the template
  carries the income, an emergency fund of 4 times the total of the expenses, a monthly
  contribution of \<open>min(5000, income / 10)\<close>, and the line on fixed deposits as the safe
  option for short-term goals.
\<close>

theorem investment_figures:
  assumes "\<not> mentions question ''save''" and "\<not> mentions question ''saving''"
    and "\<not> mentions question ''budget''" and "\<not> mentions question ''spend''"
    and "mentions question ''invest'' \<or> mentions question ''grow''"
  shows "generateMockAIResponse rt question u expenses =
     ''For your income of '' @ rupee @ number_text rt (or_zero (monthly_income u))
     @ '', consider these investment options:\<newline>''
     @ ''1. Emergency Fund: 3-6 months of expenses ('' @ rupee
     @ number_text rt (4 * sum_list (map amount expenses)) @ '')\<newline>''
     @ ''2. Mutual Funds: Start with '' @ rupee
     @ number_text rt (min 5000 (or_zero (monthly_income u) / 10)) @ '' monthly SIP\<newline>''
     @ ''3. Fixed Deposits: Safe option for short-term goals''"
  using assms by (simp add: dispatch Let_def investment_advice_def mult.commute)

text \<open>Income 30000 and expenses of 700: a fund of 2800 and a contribution of 3000.\<close>

theorem investment_figures_example:
  "\<not> mentions ''Where should I Invest?'' ''save'' \<and> \<not> mentions ''Where should I Invest?'' ''saving''
   \<and> \<not> mentions ''Where should I Invest?'' ''budget'' \<and> \<not> mentions ''Where should I Invest?'' ''spend''
   \<and> mentions ''Where should I Invest?'' ''invest''
   \<and> generateMockAIResponse example_runtime ''Where should I Invest?''
         \<lparr>monthly_income = Some 30000, savings_goal = Some 20000\<rparr>
         [\<lparr>name = ''rent'', amount = 500, category = ''housing''\<rparr>,
          \<lparr>name = ''food'', amount = 200, category = ''food''\<rparr>]
       = ''For your income of '' @ rupee @ ''30000, consider these investment options:\<newline>''
         @ ''1. Emergency Fund: 3-6 months of expenses ('' @ rupee @ ''2800)\<newline>''
         @ ''2. Mutual Funds: Start with '' @ rupee @ ''3000 monthly SIP\<newline>''
         @ ''3. Fixed Deposits: Safe option for short-term goals''"
proof -
  let ?q = "''Where should I Invest?''"
  have n1: "\<not> mentions ?q ''save''" by code_simp
  have n2: "\<not> mentions ?q ''saving''" by code_simp
  have n3: "\<not> mentions ?q ''budget''" by code_simp
  have n4: "\<not> mentions ?q ''spend''" by code_simp
  have p: "mentions ?q ''invest''" by code_simp
  have t1: "number_text example_runtime 30000 = ''30000''" by code_simp
  have t2: "number_text example_runtime 2800 = ''2800''" by code_simp
  have t3: "number_text example_runtime 3000 = ''3000''" by code_simp
  from p have p': "mentions ?q ''invest'' \<or> mentions ?q ''grow''" by simp
  from investment_figures [OF n1 n2 n3 n4 p', of example_runtime
      "\<lparr>monthly_income = Some 30000, savings_goal = Some 20000\<rparr>"
      "[\<lparr>name = ''rent'', amount = 500, category = ''housing''\<rparr>,
        \<lparr>name = ''food'', amount = 200, category = ''food''\<rparr>]"]
    n1 n2 n3 n4 p
  show ?thesis by (simp add: or_zero_def t1 t2 t3)
qed

subsection \<open>The budget listing\<close>

lemma map_of_totals:
  "map_of (map (\<lambda>(k, t). (k, Total t)) groups) c = map_option Total (map_of groups c)"
  by (induction groups) auto

lemma set_property_totals:
  "set_property c (Total ((case map_of groups c of None \<Rightarrow> 0 | Some t \<Rightarrow> t) + a))
       (map (\<lambda>(k, t). (k, Total t)) groups)
     = map (\<lambda>(k, t). (k, Total t)) (add_to_group c a groups)"
  by (induction c a groups rule: add_to_group.induct) auto

lemma add_expense_totals:
  assumes "\<not> inherited_name (category e)"
  shows "add_expense rt (map (\<lambda>(k, t). (k, Total t)) groups) e
     = map (\<lambda>(k, t). (k, Total t)) (add_to_group (category e) (amount e) groups)"
proof (cases "map_of groups (category e)")
  case None
  with assms set_property_totals [of "category e" groups "amount e"] show ?thesis
    by (simp add: add_expense_def map_of_totals inherited_name_def)
next
  case (Some t)
  with assms set_property_totals [of "category e" groups "amount e"] show ?thesis
    by (simp add: add_expense_def map_of_totals inherited_name_def)
qed

lemma forEach_totals:
  assumes "\<forall>e\<in>set expenses. \<not> inherited_name (category e)"
  shows "foldl (add_expense rt) (map (\<lambda>(k, t). (k, Total t)) groups) expenses
     = map (\<lambda>(k, t). (k, Total t))
         (foldl (\<lambda>groups e. add_to_group (category e) (amount e) groups) groups expenses)"
  using assms
proof (induction expenses arbitrary: groups)
  case Nil
  show ?case by simp
next
  case (Cons e es)
  then show ?case by (simp add: add_expense_totals)
qed

lemma first_appearances_snoc:
  "first_appearances (es @ [e]) =
     (if category e \<in> category ` set es then first_appearances es
      else first_appearances es @ [category e])"
  by (simp add: first_appearances_def)

lemma set_first_appearances: "set (first_appearances es) = category ` set es"
  by (simp add: first_appearances_def)

lemma distinct_first_appearances: "distinct (first_appearances es)"
  by (simp add: first_appearances_def)

lemma category_sum_snoc:
  "category_sum (es @ [e]) c = category_sum es c + (if category e = c then amount e else 0)"
  by (simp add: category_sum_def)

lemma category_sum_absent: "c \<notin> category ` set es \<Longrightarrow> category_sum es c = 0"
  by (induction es) (auto simp: category_sum_def)

lemma add_to_group_known:
  assumes "distinct ks" and "c \<in> set ks"
  shows "add_to_group c a (map (\<lambda>k. (k, S k)) ks)
     = map (\<lambda>k. (k, if k = c then S k + a else S k)) ks"
  using assms by (induction ks) auto

lemma add_to_group_new:
  assumes "c \<notin> set ks"
  shows "add_to_group c a (map (\<lambda>k. (k, S k)) ks) = map (\<lambda>k. (k, S k)) ks @ [(c, a)]"
  using assms by (induction ks) auto

lemma grouped_totals:
  "foldl (\<lambda>groups e. add_to_group (category e) (amount e) groups) [] es
     = map (\<lambda>c. (c, category_sum es c)) (first_appearances es)"
proof (induction es rule: rev_induct)
  case Nil
  show ?case by (simp add: first_appearances_def)
next
  case (snoc e es)
  show ?case
  proof (cases "category e \<in> category ` set es")
    case True
    then have "category e \<in> set (first_appearances es)"
      by (simp add: set_first_appearances)
    with snoc True show ?thesis
      by (simp add: add_to_group_known distinct_first_appearances
          first_appearances_snoc category_sum_snoc)
  next
    case False
    then have new: "category e \<notin> set (first_appearances es)"
      by (simp add: set_first_appearances)
    have "map (\<lambda>c. (c, category_sum (es @ [e]) c)) (first_appearances es)
        = map (\<lambda>c. (c, category_sum es c)) (first_appearances es)"
      using new by (auto simp: category_sum_snoc)
    with snoc False new show ?thesis
      by (simp add: add_to_group_new first_appearances_snoc category_sum_snoc
          category_sum_absent)
  qed
qed

lemma insort_key_map:
  "insort_key f (g x) (map g xs) = map g (insort_key (\<lambda>y. f (g y)) x xs)"
  by (induction xs) auto

lemma sort_key_map:
  "sort_key f (map g xs) = map g (sort_key (\<lambda>y. f (g y)) xs)"
  by (induction xs) (auto simp: insort_key_map)

lemma object_entries_totals:
  "object_entries (map (\<lambda>c. (c, Total (S c))) cs)
     = map (\<lambda>c. (c, Total (S c)))
         (sort_key numeral_value (filter is_array_index cs)
          @ filter (\<lambda>c. \<not> is_array_index c) cs)"
  by (simp add: object_entries_def filter_map sort_key_map comp_def)

lemma append_lines:
  "foldl (\<lambda>advice entry. advice @ line entry) advice entries
     = advice @ concat (map line entries)"
  by (induction entries arbitrary: advice) auto

lemma budget_advice_listing:
  assumes "\<forall>e\<in>set expenses. \<not> inherited_name (category e)"
  shows "budget_advice rt expenses = listing rt expenses (listing_order expenses)"
proof -
  have "foldl (add_expense rt) [] expenses
      = map (\<lambda>(k, t). (k, Total t))
          (map (\<lambda>c. (c, category_sum expenses c)) (first_appearances expenses))"
    using forEach_totals [OF assms, of rt "[]"] by (simp add: grouped_totals)
  then have cats: "foldl (add_expense rt) [] expenses
      = map (\<lambda>c. (c, Total (category_sum expenses c))) (first_appearances expenses)"
    by (simp add: comp_def)
  show ?thesis
    unfolding budget_advice_def breakdown_def Let_def cats object_entries_totals
      listing_def listing_order_def append_lines
    by (simp add: comp_def breakdown_line_def cell_text_def guideline_def)
qed

lemma distinct_listing_order: "distinct (listing_order es)"
  by (auto simp: listing_order_def distinct_first_appearances)

lemma set_listing_order: "set (listing_order es) = category ` set es"
  by (auto simp: listing_order_def set_first_appearances)

lemma listing_order_plain:
  assumes "\<forall>e\<in>set es. \<not> is_array_index (category e)"
  shows "listing_order es = first_appearances es"
proof -
  have "\<forall>c\<in>set (first_appearances es). \<not> is_array_index c"
    using assms by (auto simp: set_first_appearances)
  then have "filter is_array_index (first_appearances es) = []"
    and "filter (\<lambda>c. \<not> is_array_index c) (first_appearances es) = first_appearances es"
    by (simp_all add: filter_empty_conv)
  then show ?thesis by (simp add: listing_order_def)
qed

text \<open>
  Claim C7, as amended. For every question that reaches the budget keywords and every
  list of expenses none of whose categories is a name that a plain object inherits, the
  budget template lists each distinct category exactly once, with the sum of the amounts
  of its expenses: the categories that are array indices first, by ascending index, then
  the others in the order of first appearance; the 50/30/20 sentence follows. Where no
  category is an array index, this is the listing of the specification.
\<close>

theorem budget_listing:
  assumes "\<not> mentions question ''save''" and "\<not> mentions question ''saving''"
    and "mentions question ''budget'' \<or> mentions question ''spend''"
    and "\<forall>e\<in>set expenses. \<not> inherited_name (category e)"
  shows "generateMockAIResponse rt question u expenses
           = listing rt expenses (listing_order expenses)
     \<and> distinct (listing_order expenses)
     \<and> set (listing_order expenses) = category ` set expenses
     \<and> ((\<forall>e\<in>set expenses. \<not> is_array_index (category e)) \<longrightarrow>
          generateMockAIResponse rt question u expenses = spec_budget_advice rt expenses)"
proof -
  have "generateMockAIResponse rt question u expenses = budget_advice rt expenses"
    using assms(1-3) by (simp add: dispatch Let_def)
  then have out: "generateMockAIResponse rt question u expenses
      = listing rt expenses (listing_order expenses)"
    using assms(4) by (simp add: budget_advice_listing)
  moreover have "(\<forall>e\<in>set expenses. \<not> is_array_index (category e)) \<longrightarrow>
      generateMockAIResponse rt question u expenses = spec_budget_advice rt expenses"
    using out by (simp add: listing_order_plain spec_budget_advice_def)
  ultimately show ?thesis
    by (simp add: distinct_listing_order set_listing_order)
qed

text \<open>The example of the specification: housing 500, then food 200.\<close>

theorem budget_listing_example:
  "generateMockAIResponse example_runtime ''How should I budget?''
     \<lparr>monthly_income = Some 50000, savings_goal = Some 20000\<rparr>
     [\<lparr>name = ''rent'', amount = 500, category = ''housing''\<rparr>,
      \<lparr>name = ''food'', amount = 200, category = ''food''\<rparr>]
   = ''Your spending breakdown:\<newline>''
     @ bullet @ '' housing: '' @ rupee @ ''500\<newline>''
     @ bullet @ '' food: '' @ rupee @ ''200\<newline>''
     @ ''\<newline>Try the 50/30/20 rule: 50% needs, 30% wants, 20% savings.''"
proof -
  let ?q = "''How should I budget?''"
  let ?es = "[\<lparr>name = ''rent'', amount = 500, category = ''housing''\<rparr>,
      \<lparr>name = ''food'', amount = 200, category = ''food''\<rparr>]"
  have n1: "\<not> mentions ?q ''save''" by code_simp
  have n2: "\<not> mentions ?q ''saving''" by code_simp
  have p: "mentions ?q ''budget'' \<or> mentions ?q ''spend''" by code_simp
  have own: "\<forall>e\<in>set ?es. \<not> inherited_name (category e)" by code_simp
  have plain: "\<forall>e\<in>set ?es. \<not> is_array_index (category e)" by code_simp
  have rendered: "spec_budget_advice example_runtime ?es
     = ''Your spending breakdown:\<newline>''
     @ bullet @ '' housing: '' @ rupee @ ''500\<newline>''
     @ bullet @ '' food: '' @ rupee @ ''200\<newline>''
     @ ''\<newline>Try the 50/30/20 rule: 50% needs, 30% wants, 20% savings.''" by code_simp
  note all = budget_listing [OF n1 n2 p own, of example_runtime
      "\<lparr>monthly_income = Some 50000, savings_goal = Some 20000\<rparr>"]
  note plain_case = all [THEN conjunct2, THEN conjunct2, THEN conjunct2]
  show ?thesis
    by (rule trans [OF mp [OF plain_case plain] rendered])
qed

text \<open>
  Claim C7 as stated fails: a category that is an array index, here \<open>2026\<close>, is listed
  before a category that appeared earlier.
\<close>

theorem budget_order_counterexample:
  "generateMockAIResponse example_runtime ''How should I budget?''
     \<lparr>monthly_income = Some 50000, savings_goal = Some 20000\<rparr>
     [\<lparr>name = ''rent'', amount = 500, category = ''housing''\<rparr>,
      \<lparr>name = ''fees'', amount = 200, category = ''2026''\<rparr>]
   \<noteq> spec_budget_advice example_runtime
     [\<lparr>name = ''rent'', amount = 500, category = ''housing''\<rparr>,
      \<lparr>name = ''fees'', amount = 200, category = ''2026''\<rparr>]"
  by code_simp

text \<open>What the code answers there.\<close>

lemma budget_order_shown:
  "generateMockAIResponse example_runtime ''How should I budget?''
     \<lparr>monthly_income = Some 50000, savings_goal = Some 20000\<rparr>
     [\<lparr>name = ''rent'', amount = 500, category = ''housing''\<rparr>,
      \<lparr>name = ''fees'', amount = 200, category = ''2026''\<rparr>]
   = ''Your spending breakdown:\<newline>''
     @ bullet @ '' 2026: '' @ rupee @ ''200\<newline>''
     @ bullet @ '' housing: '' @ rupee @ ''500\<newline>''
     @ ''\<newline>Try the 50/30/20 rule: 50% needs, 30% wants, 20% savings.''"
  by code_simp

subsection \<open>Purity\<close>

lemma those_Cons:
  "those (x # xs) = Some rows \<longleftrightarrow>
     (\<exists>y ys. x = Some y \<and> those xs = Some ys \<and> rows = y # ys)"
  by (cases x) auto

lemma deref_expense_other:
  "r \<noteq> c \<Longrightarrow> deref_expense (h\<lparr>objects := (objects h)(c \<mapsto> obj)\<rparr>) r = deref_expense h r"
  by (simp add: deref_expense_def)

lemma forEach_assign_run:
  assumes "\<forall>r\<in>set refs. r \<noteq> c"
    and "objects h c = Some (Plain_object props)"
    and "those (map (deref_expense h) refs) = Some rows"
  shows "forEach_assign rt c refs h
     = Some (h\<lparr>objects := (objects h)(c \<mapsto> Plain_object (foldl (add_expense rt) props rows))\<rparr>)"
  using assms
proof (induction refs arbitrary: h props rows)
  case Nil
  then show ?case by (simp add: fun_upd_idem)
next
  case (Cons r refs)
  from Cons.prems(3) obtain ex rest where ex: "deref_expense h r = Some ex"
    and rest: "those (map (deref_expense h) refs) = Some rest" and rows: "rows = ex # rest"
    by (auto simp: those_Cons simp del: those.simps)
  let ?h = "h\<lparr>objects := (objects h)(c \<mapsto> Plain_object (add_expense rt props ex))\<rparr>"
  have step: "assign_category rt c h ex = ?h"
    using Cons.prems(2) by (simp add: assign_category_def)
  have others: "\<forall>r\<in>set refs. r \<noteq> c"
    using Cons.prems(1) by simp
  then have same: "map (deref_expense ?h) refs = map (deref_expense h) refs"
    by (simp add: deref_expense_other)
  have rest': "those (map (deref_expense ?h) refs) = Some rest"
    unfolding same by (rule rest)
  have at_c: "objects ?h c = Some (Plain_object (add_expense rt props ex))"
    by simp
  have "forEach_assign rt c (r # refs) h = forEach_assign rt c refs ?h"
    by (simp add: ex step)
  also have "\<dots> = Some (?h\<lparr>objects := (objects ?h)(c \<mapsto>
      Plain_object (foldl (add_expense rt) (add_expense rt props ex) rest))\<rparr>)"
    by (rule Cons.IH [OF others at_c rest'])
  also have "?h\<lparr>objects := (objects ?h)(c \<mapsto>
      Plain_object (foldl (add_expense rt) (add_expense rt props ex) rest))\<rparr>
    = h\<lparr>objects := (objects h)(c \<mapsto> Plain_object (foldl (add_expense rt) props rows))\<rparr>"
    by (simp add: rows cong: if_cong)
  finally show ?case .
qed

lemma those_all_defined:
  "those (map f refs) = Some rows \<Longrightarrow> \<forall>r\<in>set refs. f r \<noteq> None"
  by (induction refs arbitrary: rows) (auto simp: those_Cons simp del: those.simps)

lemma allocated_below:
  "heap_ok h \<Longrightarrow> objects h a \<noteq> None \<Longrightarrow> a < next_addr h"
  unfolding heap_ok_def by (meson not_le)

lemma advice_engine_run:
  assumes ok: "heap_ok h"
    and usr: "deref_user h user_ref = Some u"
    and exs: "deref_expenses h expenses_ref = Some es"
  shows "\<exists>h'. generateMockAIResponse_heap rt question user_ref expenses_ref h
             = Some (generateMockAIResponse rt question u es, h')
     \<and> (\<forall>a. objects h a \<noteq> None \<longrightarrow> objects h' a = objects h a)
     \<and> heap_ok h'"
proof -
  from exs obtain refs where arr: "objects h expenses_ref = Some (Array_of refs)"
    and rows: "those (map (deref_expense h) refs) = Some es"
    by (auto simp: deref_expenses_def split: option.splits object.splits)
  let ?c = "next_addr h"
  let ?h1 = "snd (new_object h)"
  have c: "fst (new_object h) = ?c"
    by (simp add: new_object_def)
  have h1: "?h1 = h\<lparr>objects := (objects h)(?c \<mapsto> Plain_object []), next_addr := Suc ?c\<rparr>"
    by (simp add: new_object_def)
  have "\<forall>r\<in>set refs. objects h r \<noteq> None"
    using those_all_defined [OF rows]
    by (auto simp: deref_expense_def split: option.splits)
  then have fresh: "\<forall>r\<in>set refs. r \<noteq> ?c"
    using allocated_below [OF ok] by fastforce
  then have same: "map (deref_expense ?h1) refs = map (deref_expense h) refs"
    by (simp add: h1 deref_expense_def)
  have rows1: "those (map (deref_expense ?h1) refs) = Some es"
    unfolding same by (rule rows)
  have at_c: "objects ?h1 ?c = Some (Plain_object [])"
    by (simp add: h1)
  let ?h2 = "?h1\<lparr>objects := (objects ?h1)(?c \<mapsto> Plain_object (foldl (add_expense rt) [] es))\<rparr>"
  have loop: "forEach_assign rt ?c refs ?h1 = Some ?h2"
    by (rule forEach_assign_run [OF fresh at_c rows1])
  have frame2: "\<forall>a. objects h a \<noteq> None \<longrightarrow> objects ?h2 a = objects h a"
    using allocated_below [OF ok] by (auto simp: h1)
  have ok2: "heap_ok ?h2"
    using ok by (auto simp: heap_ok_def h1)
  have at_c2: "objects ?h2 ?c = Some (Plain_object (foldl (add_expense rt) [] es))"
    by simp
  let ?q = "toLowerCase question"
  show ?thesis
  proof (cases "\<not> (includes_str ?q ''save'' \<or> includes_str ?q ''saving'')
      \<and> (includes_str ?q ''budget'' \<or> includes_str ?q ''spend'')")
    case True
    then have "generateMockAIResponse_heap rt question user_ref expenses_ref h
        = Some (breakdown rt (foldl (add_expense rt) [] es), ?h2)"
      unfolding generateMockAIResponse_heap_def
      by (simp add: usr arr rows c loop Let_def del: those.simps)
    moreover from True have "generateMockAIResponse rt question u es
        = breakdown rt (foldl (add_expense rt) [] es)"
      by (simp add: generateMockAIResponse_def budget_advice_def Let_def)
    ultimately show ?thesis
      using frame2 ok2 by (intro exI [of _ ?h2]) simp
  next
    case False
    then have "generateMockAIResponse_heap rt question user_ref expenses_ref h
        = Some (generateMockAIResponse rt question u es, h)"
      unfolding generateMockAIResponse_heap_def
      by (auto simp: usr arr rows Let_def generateMockAIResponse_def simp del: those.simps)
    then show ?thesis
      using ok by (intro exI [of _ h]) simp
  qed
qed

lemma deref_unchanged:
  assumes "\<forall>a. objects h a \<noteq> None \<longrightarrow> objects h' a = objects h a"
  shows "deref_user h r = Some u \<Longrightarrow> deref_user h' r = Some u"
    and "deref_expenses h r = Some es \<Longrightarrow> deref_expenses h' r = Some es"
proof -
  assume "deref_user h r = Some u"
  then have "objects h r = Some (User_row u)"
    by (auto simp: deref_user_def split: option.splits object.splits)
  with assms show "deref_user h' r = Some u"
    by (simp add: deref_user_def)
next
  assume d: "deref_expenses h r = Some es"
  then obtain refs where arr: "objects h r = Some (Array_of refs)"
    and rows: "those (map (deref_expense h) refs) = Some es"
    by (auto simp: deref_expenses_def split: option.splits object.splits)
  have "\<forall>x\<in>set refs. objects h x \<noteq> None"
    using those_all_defined [OF rows]
    by (auto simp: deref_expense_def split: option.splits)
  with assms have same: "map (deref_expense h') refs = map (deref_expense h) refs"
    by (simp add: deref_expense_def)
  from arr assms have "objects h' r = Some (Array_of refs)"
    by simp
  then show "deref_expenses h' r = Some es"
    by (simp add: deref_expenses_def same rows del: those.simps)
qed

text \<open>
  Claim C9. The advice engine is deterministic and without side effects. Run in any two
  stores in which its arguments refer to the same user and the same list of expenses, it
  returns the same string, the one that the function of the values gives; each store
  keeps every object it held (the user, the array and its rows among them), so that a
  second call after the first returns the same string again.
\<close>

theorem advice_engine_pure:
  assumes "heap_ok h1" and "heap_ok h2"
    and "deref_user h1 user1 = Some u" and "deref_user h2 user2 = Some u"
    and "deref_expenses h1 expenses1 = Some es" and "deref_expenses h2 expenses2 = Some es"
  shows "\<exists>answer h1' h2'.
       generateMockAIResponse_heap rt question user1 expenses1 h1 = Some (answer, h1')
     \<and> generateMockAIResponse_heap rt question user2 expenses2 h2 = Some (answer, h2')
     \<and> answer = generateMockAIResponse rt question u es
     \<and> (\<forall>a. objects h1 a \<noteq> None \<longrightarrow> objects h1' a = objects h1 a)
     \<and> (\<forall>a. objects h2 a \<noteq> None \<longrightarrow> objects h2' a = objects h2 a)
     \<and> deref_user h1' user1 = Some u \<and> deref_expenses h1' expenses1 = Some es
     \<and> heap_ok h1'
     \<and> generateMockAIResponse_heap rt question user1 expenses1 h1' \<noteq> None
     \<and> map_option fst (generateMockAIResponse_heap rt question user1 expenses1 h1')
         = Some answer"
proof -
  from advice_engine_run [OF assms(1,3,5), of rt question]
  obtain h1' where r1: "generateMockAIResponse_heap rt question user1 expenses1 h1
             = Some (generateMockAIResponse rt question u es, h1')"
    and f1: "\<forall>a. objects h1 a \<noteq> None \<longrightarrow> objects h1' a = objects h1 a"
    and ok1: "heap_ok h1'" by blast
  from advice_engine_run [OF assms(2,4,6), of rt question]
  obtain h2' where r2: "generateMockAIResponse_heap rt question user2 expenses2 h2
             = Some (generateMockAIResponse rt question u es, h2')"
    and f2: "\<forall>a. objects h2 a \<noteq> None \<longrightarrow> objects h2' a = objects h2 a" by blast
  have u1: "deref_user h1' user1 = Some u"
    by (rule deref_unchanged(1) [OF f1 assms(3)])
  have e1: "deref_expenses h1' expenses1 = Some es"
    by (rule deref_unchanged(2) [OF f1 assms(5)])
  from advice_engine_run [OF ok1 u1 e1, of rt question]
  obtain h1'' where r3: "generateMockAIResponse_heap rt question user1 expenses1 h1'
             = Some (generateMockAIResponse rt question u es, h1'')" by blast
  from r1 r2 f1 f2 u1 e1 ok1 r3 show ?thesis by simp
qed

text \<open>A store with a user, two expenses and their array; the budget branch writes.\<close>

theorem advice_engine_pure_example:
  "\<exists>h'. generateMockAIResponse_heap example_runtime ''How should I budget?'' 0 3
       \<lparr> objects = [0 \<mapsto> User_row \<lparr>monthly_income = Some 50000, savings_goal = Some 20000\<rparr>,
                     1 \<mapsto> Expense_row \<lparr>name = ''rent'', amount = 500, category = ''housing''\<rparr>,
                     2 \<mapsto> Expense_row \<lparr>name = ''food'', amount = 200, category = ''food''\<rparr>,
                     3 \<mapsto> Array_of [1, 2]],
         next_addr = 4 \<rparr>
     = Some (generateMockAIResponse example_runtime ''How should I budget?''
               \<lparr>monthly_income = Some 50000, savings_goal = Some 20000\<rparr>
               [\<lparr>name = ''rent'', amount = 500, category = ''housing''\<rparr>,
                \<lparr>name = ''food'', amount = 200, category = ''food''\<rparr>], h')
     \<and> objects h' 1 = Some (Expense_row \<lparr>name = ''rent'', amount = 500, category = ''housing''\<rparr>)
     \<and> objects h' 2 = Some (Expense_row \<lparr>name = ''food'', amount = 200, category = ''food''\<rparr>)
     \<and> objects h' 3 = Some (Array_of [1, 2])"
proof -
  let ?u = "\<lparr>monthly_income = Some 50000, savings_goal = Some (20000::rat)\<rparr>"
  let ?es = "[\<lparr>name = ''rent'', amount = 500, category = ''housing''\<rparr>,
                \<lparr>name = ''food'', amount = 200, category = ''food''\<rparr>]"
  let ?h = "\<lparr> objects = [0 \<mapsto> User_row ?u,
                     1 \<mapsto> Expense_row \<lparr>name = ''rent'', amount = 500, category = ''housing''\<rparr>,
                     2 \<mapsto> Expense_row \<lparr>name = ''food'', amount = 200, category = ''food''\<rparr>,
                     3 \<mapsto> Array_of [1, 2]],
         next_addr = 4 \<rparr>"
  have ok: "heap_ok ?h" by (auto simp: heap_ok_def)
  have usr: "deref_user ?h 0 = Some ?u" by (simp add: deref_user_def)
  have exs: "deref_expenses ?h 3 = Some ?es" by (simp add: deref_expenses_def deref_expense_def)
  from advice_engine_pure [OF ok ok usr usr exs exs, of example_runtime "''How should I budget?''"]
  obtain h' where run: "generateMockAIResponse_heap example_runtime ''How should I budget?'' 0 3 ?h
       = Some (generateMockAIResponse example_runtime ''How should I budget?'' ?u ?es, h')"
    and frame: "\<forall>a. objects ?h a \<noteq> None \<longrightarrow> objects h' a = objects ?h a"
    by auto
  from frame have "objects h' 1 = objects ?h 1" "objects h' 2 = objects ?h 2"
    "objects h' 3 = objects ?h 3" by simp_all
  with run show ?thesis by simp
qed

section \<open>Properties of the chat handler\<close>


lemma chat_handler_reaches_attempt:
  assumes "message = Some (JString m)" and "m \<noteq> []"
    and "gemini_key = Some k" and "k \<noteq> []"
    and "user_query = Inr (Some u)" and "expense_query = Inr rows"
  shows "chat_handler rt gemini_key fetch message user_query expense_query
     = chat_attempt rt (fetch k (prompt (financialContext rt u (take 5 rows)) m)) (JString m) u
         (take 5 rows)"
  using assms by (simp add: chat_handler_def recent_expenses_query_def Let_def)

lemma chat_key_missing:
  assumes "truthy message" and "gemini_key = None \<or> gemini_key = Some []"
  shows "chat_handler rt gemini_key fetch message user_query expense_query
     = Error_reply (Http_error 500 key_missing)"
  using assms by (cases message) (auto simp: chat_handler_def)

text \<open>
  Claim C1, as amended. For every chat request whose message is a string that is not
  empty, with a configured key and both reads of the store successful, in which the call
  of the service fails (a rejected \<open>fetch\<close>, a status that is not a success, or a
  body that does not parse), the answer is a normal response whose text is the output of
  the advice engine for the same question, user and expenses (the five most recent of
  the month at most); no error reaches the caller. A request with a message and no key,
  or an empty one, is answered with the status 500.
\<close>

theorem chat_fallback:
  assumes "truthy message"
  shows "(gemini_key = None \<or> gemini_key = Some [] \<longrightarrow>
          chat_handler rt gemini_key fetch message user_query expense_query
            = Error_reply (Http_error 500 key_missing))
     \<and> (\<forall>m k u rows.
          message = Some (JString m)
          \<and> gemini_key = Some k \<and> k \<noteq> []
          \<and> user_query = Inr (Some u) \<and> expense_query = Inr rows
          \<and> (fetch k (prompt (financialContext rt u (take 5 rows)) m) = Fetch_failed
             \<or> (\<exists>b. fetch k (prompt (financialContext rt u (take 5 rows)) m)
                       = Http_response False b)
             \<or> fetch k (prompt (financialContext rt u (take 5 rows)) m)
                  = Http_response True Unparseable) \<longrightarrow>
          chat_handler rt gemini_key fetch message user_query expense_query
            = Response (generateMockAIResponse rt m u (take 5 rows)))"
proof (intro conjI allI impI)
  assume "gemini_key = None \<or> gemini_key = Some []"
  with assms show "chat_handler rt gemini_key fetch message user_query expense_query
      = Error_reply (Http_error 500 key_missing)"
    by (rule chat_key_missing)
next
  fix m k u rows
  assume a: "message = Some (JString m)
          \<and> gemini_key = Some k \<and> k \<noteq> []
          \<and> user_query = Inr (Some u) \<and> expense_query = Inr rows
          \<and> (fetch k (prompt (financialContext rt u (take 5 rows)) m) = Fetch_failed
             \<or> (\<exists>b. fetch k (prompt (financialContext rt u (take 5 rows)) m)
                       = Http_response False b)
             \<or> fetch k (prompt (financialContext rt u (take 5 rows)) m)
                  = Http_response True Unparseable)"
  with assms have filled: "m \<noteq> []" by auto
  from a have "chat_attempt rt (fetch k (prompt (financialContext rt u (take 5 rows)) m))
        (JString m) u (take 5 rows)
      = Response (generateMockAIResponse rt m u (take 5 rows))"
    by (auto simp: chat_attempt_def fallback_def)
  with a filled show "chat_handler rt gemini_key fetch message user_query expense_query
      = Response (generateMockAIResponse rt m u (take 5 rows))"
    by (simp add: chat_handler_reaches_attempt)
qed

text \<open>A status that is not a success: the answer is the debt template of the engine.\<close>

theorem chat_fallback_example:
  "chat_handler example_runtime (Some ''secret'') (\<lambda>k p. Http_response False Unparseable)
     (Some (JString ''Any tips on my loan?''))
     (Inr (Some \<lparr>monthly_income = Some 50000, savings_goal = Some 20000\<rparr>))
     (Inr [\<lparr>name = ''rent'', amount = 500, category = ''housing''\<rparr>])
   = Response debt_advice"
proof -
  let ?u = "\<lparr>monthly_income = Some 50000, savings_goal = Some (20000::rat)\<rparr>"
  let ?rows = "[\<lparr>name = ''rent'', amount = 500, category = ''housing''\<rparr>]"
  have adv: "generateMockAIResponse example_runtime ''Any tips on my loan?'' ?u (take 5 ?rows)
      = debt_advice"
    by code_simp
  have msg: "truthy (Some (JString ''Any tips on my loan?''))"
    by simp
  note both = chat_fallback [OF msg, of "Some ''secret''" example_runtime
      "\<lambda>k p. Http_response False Unparseable" "Inr (Some ?u)" "Inr ?rows"]
  note fails = both [THEN conjunct2, THEN spec, THEN spec, THEN spec, THEN spec,
      of "''Any tips on my loan?''" "''secret''" ?u ?rows]
  have "chat_handler example_runtime (Some ''secret'')
      (\<lambda>k p. Http_response False Unparseable) (Some (JString ''Any tips on my loan?''))
      (Inr (Some ?u)) (Inr ?rows)
    = Response (generateMockAIResponse example_runtime ''Any tips on my loan?'' ?u
        (take 5 ?rows))"
    by (rule mp [OF fails]) auto
  with adv show ?thesis by (simp only:)
qed

text \<open>
  Claim C1 as stated fails: without a key the handler answers with the status 500, not
  with the text of the advice engine.
\<close>

theorem chat_missing_key_counterexample:
  "chat_handler example_runtime None (\<lambda>k p. Fetch_failed)
     (Some (JString ''Any tips on my loan?''))
     (Inr (Some \<lparr>monthly_income = Some 50000, savings_goal = Some 20000\<rparr>))
     (Inr [\<lparr>name = ''rent'', amount = 500, category = ''housing''\<rparr>])
   = Error_reply (Http_error 500
       ''Gemini API key not configured. Please add GEMINI_API_KEY to your .env file.'')"
  by (simp add: chat_handler_def key_missing_def)

text \<open>
  A message that is truthy and not a string, such as the number 123, passes line 236.
  When the call then fails, the advice engine throws on it and nothing is sent.
\<close>

lemma chat_message_not_text:
  assumes "message = Some m" and "truthy (Some m)" and "\<forall>s. m \<noteq> JString s"
    and "gemini_key = Some k" and "k \<noteq> []"
    and "user_query = Inr (Some u)" and "expense_query = Inr rows"
    and "\<forall>p. fetch k p = Fetch_failed"
  shows "chat_handler rt gemini_key fetch message user_query expense_query = No_response"
proof -
  from assms(3) have fb: "fallback rt m u (take 5 rows) = No_response"
    by (cases m) (auto simp: fallback_def)
  from assms(8) have "\<And>p. chat_attempt rt (fetch k p) m u (take 5 rows) = No_response"
    by (simp add: chat_attempt_def fb)
  with assms fb show ?thesis
    by (simp add: chat_handler_def recent_expenses_query_def Let_def split: option.splits)
qed

lemma chat_message_number:
  "chat_handler example_runtime (Some ''secret'') (\<lambda>k p. Fetch_failed) (Some (JNumber 123))
     (Inr (Some \<lparr>monthly_income = Some 50000, savings_goal = Some 20000\<rparr>))
     (Inr [\<lparr>name = ''rent'', amount = 500, category = ''housing''\<rparr>])
   = No_response"
  by (rule chat_message_not_text [where k = "''secret''"]) auto




lemma chat_total: "chat_totalExpenses expenses = sum_list (map amount expenses)"
  by (simp add: chat_totalExpenses_def reduce_amounts)

text \<open>
  The context string of lines 265 to 273 and the templates of the advice engine, with
  their figures written as the total of the five most recent expenses and what is saved
  against it.
\<close>

lemma context_figures:
  "financialContext rt u (take 5 rows) =
     ''\<newline>''
     @ spaces 12 @ ''User Financial Summary:\<newline>''
     @ spaces 12 @ ''- Monthly Income: '' @ rupee
     @ number_text rt (or_zero (monthly_income u)) @ ''\<newline>''
     @ spaces 12 @ ''- Savings Goal: '' @ rupee
     @ number_text rt (or_zero (savings_goal u)) @ ''\<newline>''
     @ spaces 12 @ ''- Current Month Expenses: '' @ rupee
     @ number_text rt (recent_total rows) @ ''\<newline>''
     @ spaces 12 @ ''- Amount Saved: '' @ rupee
     @ number_text rt (recent_saved u rows) @ ''\<newline>''
     @ spaces 12 @ ''- Savings Rate: ''
     @ (case monthly_income u of
          None \<Rightarrow> number_text rt 0
        | Some i \<Rightarrow>
            if i = 0 then number_text rt 0
            else fixed1_text rt ((recent_saved u rows / i) * 100))
     @ ''%\<newline>''
     @ spaces 12 @ ''- Recent Expenses: ''
     @ join '', '' (map (recent_line rt) (take 5 rows)) @ ''\<newline>''
     @ spaces 10"
proof -
  have total: "chat_totalExpenses (take 5 rows) = recent_total rows"
    by (simp add: chat_total recent_total_def)
  have saved: "chat_saved u (take 5 rows) = recent_saved u rows"
    by (simp add: chat_saved_def recent_saved_def total)
  have same: "(if recent_total rows = 0 then 0 else recent_total rows) = recent_total rows"
    "(if recent_saved u rows = 0 then 0 else recent_saved u rows) = recent_saved u rows"
    by simp_all
  show ?thesis
    unfolding financialContext_def Let_def total saved same
    by simp
qed

lemma engine_figures:
  "generateMockAIResponse rt question u (take 5 rows) =
     (if mentions question ''save'' \<or> mentions question ''saving'' then
        savings_advice rt (or_zero (monthly_income u)) (recent_saved u rows)
          (or_zero (savings_goal u))
      else if mentions question ''budget'' \<or> mentions question ''spend'' then
        budget_advice rt (take 5 rows)
      else if mentions question ''invest'' \<or> mentions question ''grow'' then
        investment_advice rt (or_zero (monthly_income u)) (recent_total rows)
      else if mentions question ''debt'' \<or> mentions question ''loan'' then
        debt_advice
      else
        generic_advice rt question (or_zero (monthly_income u)) (recent_total rows)
          (recent_saved u rows) (or_zero (savings_goal u)))"
  by (simp add: dispatch Let_def recent_total_def recent_saved_def)

text \<open>
  Claim C10. The chat handler reads at most the five most recent expenses of the month.
  From them it builds the context string that goes to the service, whose figures
  ``Current Month Expenses'' and ``Amount Saved'' are their total and what is saved
  against it; and the advice engine of the fallback is called with the same five, so
  that the total in its templates is theirs too. For some user with more than five
  expenses in the month, both figures are strictly smaller than the total that the
  statistics return for the same expenses.
\<close>

theorem chat_figures_recent_five:
  "recent_expenses_query rows = take 5 rows \<and> length (recent_expenses_query rows) \<le> 5
   \<and> (\<forall>k question. k \<noteq> [] \<and> question \<noteq> [] \<longrightarrow>
        chat_handler rt (Some k) fetch (Some (JString question)) (Inr (Some u)) (Inr rows)
          = chat_attempt rt (fetch k (prompt (financialContext rt u (take 5 rows)) question))
              (JString question) u (take 5 rows))
   \<and> financialContext rt u (take 5 rows) =
       ''\<newline>''
       @ spaces 12 @ ''User Financial Summary:\<newline>''
       @ spaces 12 @ ''- Monthly Income: '' @ rupee
       @ number_text rt (or_zero (monthly_income u)) @ ''\<newline>''
       @ spaces 12 @ ''- Savings Goal: '' @ rupee
       @ number_text rt (or_zero (savings_goal u)) @ ''\<newline>''
       @ spaces 12 @ ''- Current Month Expenses: '' @ rupee
       @ number_text rt (recent_total rows) @ ''\<newline>''
       @ spaces 12 @ ''- Amount Saved: '' @ rupee
       @ number_text rt (recent_saved u rows) @ ''\<newline>''
       @ spaces 12 @ ''- Savings Rate: ''
       @ (case monthly_income u of
            None \<Rightarrow> number_text rt 0
          | Some i \<Rightarrow>
              if i = 0 then number_text rt 0
              else fixed1_text rt ((recent_saved u rows / i) * 100))
       @ ''%\<newline>''
       @ spaces 12 @ ''- Recent Expenses: ''
       @ join '', '' (map (recent_line rt) (take 5 rows)) @ ''\<newline>''
       @ spaces 10
   \<and> (\<forall>question.
        fallback rt (JString question) u (take 5 rows)
          = Response (generateMockAIResponse rt question u (take 5 rows))
        \<and> generateMockAIResponse rt question u (take 5 rows) =
            (if mentions question ''save'' \<or> mentions question ''saving'' then
               savings_advice rt (or_zero (monthly_income u)) (recent_saved u rows)
                 (or_zero (savings_goal u))
             else if mentions question ''budget'' \<or> mentions question ''spend'' then
               budget_advice rt (take 5 rows)
             else if mentions question ''invest'' \<or> mentions question ''grow'' then
               investment_advice rt (or_zero (monthly_income u)) (recent_total rows)
             else if mentions question ''debt'' \<or> mentions question ''loan'' then
               debt_advice
             else
               generic_advice rt question (or_zero (monthly_income u)) (recent_total rows)
                 (recent_saved u rows) (or_zero (savings_goal u))))
   \<and> (\<exists>v es. 5 < length es
        \<and> recent_total es
            < reply_total_expenses (stats_body_stored rt (row_of v) (category_totals_query es))
        \<and> recent_saved v es
            < reply_total_expenses (stats_body_stored rt (row_of v) (category_totals_query es)))"
proof -
  have query: "recent_expenses_query rows = take 5 rows \<and> length (recent_expenses_query rows) \<le> 5"
    by (simp add: recent_expenses_query_def)
  have reach: "\<forall>k question. k \<noteq> [] \<and> question \<noteq> [] \<longrightarrow>
        chat_handler rt (Some k) fetch (Some (JString question)) (Inr (Some u)) (Inr rows)
          = chat_attempt rt (fetch k (prompt (financialContext rt u (take 5 rows)) question))
              (JString question) u (take 5 rows)"
    by (simp add: chat_handler_reaches_attempt)
  have engine: "\<forall>question.
        fallback rt (JString question) u (take 5 rows)
          = Response (generateMockAIResponse rt question u (take 5 rows))
        \<and> generateMockAIResponse rt question u (take 5 rows) =
            (if mentions question ''save'' \<or> mentions question ''saving'' then
               savings_advice rt (or_zero (monthly_income u)) (recent_saved u rows)
                 (or_zero (savings_goal u))
             else if mentions question ''budget'' \<or> mentions question ''spend'' then
               budget_advice rt (take 5 rows)
             else if mentions question ''invest'' \<or> mentions question ''grow'' then
               investment_advice rt (or_zero (monthly_income u)) (recent_total rows)
             else if mentions question ''debt'' \<or> mentions question ''loan'' then
               debt_advice
             else
               generic_advice rt question (or_zero (monthly_income u)) (recent_total rows)
                 (recent_saved u rows) (or_zero (savings_goal u)))"
    using engine_figures [of rt _ u rows] by (simp add: fallback_def)
  let ?e = "\<lparr>name = ''tea'', amount = 10, category = ''food''\<rparr>"
  let ?v = "\<lparr>monthly_income = Some 55, savings_goal = Some 0\<rparr>"
  have "5 < length (replicate 6 ?e)
        \<and> recent_total (replicate 6 ?e)
            < reply_total_expenses
                (stats_body_stored rt (row_of ?v) (category_totals_query (replicate 6 ?e)))
        \<and> recent_saved ?v (replicate 6 ?e)
            < reply_total_expenses
                (stats_body_stored rt (row_of ?v) (category_totals_query (replicate 6 ?e)))"
    by (simp add: recent_saved_def recent_total_def stored_total or_zero_def eval_nat_numeral)
  then have some: "\<exists>v es. 5 < length es
        \<and> recent_total es
            < reply_total_expenses (stats_body_stored rt (row_of v) (category_totals_query es))
        \<and> recent_saved v es
            < reply_total_expenses (stats_body_stored rt (row_of v) (category_totals_query es))"
    by blast
  from query reach context_figures [of rt u rows] engine some show ?thesis
    by (intro conjI) blast+
qed

text \<open>
  Six expenses of 10 and an income of 55, and a service that fails: the answer of the
  chat counts expenses of 50 and a saved amount of 5, its context string carries the same
  two figures, and the statistics count 60.
\<close>

theorem chat_figures_recent_five_example:
  "chat_handler example_runtime (Some ''secret'') (\<lambda>k p. Fetch_failed)
     (Some (JString ''How am I doing?''))
     (Inr (Some \<lparr>monthly_income = Some 55, savings_goal = Some 0\<rparr>))
     (Inr (replicate 6 \<lparr>name = ''tea'', amount = 10, category = ''food''\<rparr>))
   = Response (generic_advice example_runtime ''How am I doing?'' 55 50 5 0)
   \<and> reply_total_expenses
       (stats_body_stored example_runtime
          (row_of \<lparr>monthly_income = Some 55, savings_goal = Some 0\<rparr>)
          (category_totals_query
             (replicate 6 \<lparr>name = ''tea'', amount = 10, category = ''food''\<rparr>))) = 60
   \<and> financialContext example_runtime \<lparr>monthly_income = Some 55, savings_goal = Some 0\<rparr>
       (take 5 (replicate 6 \<lparr>name = ''tea'', amount = 10, category = ''food''\<rparr>))
     = ''\<newline>''
       @ spaces 12 @ ''User Financial Summary:\<newline>''
       @ spaces 12 @ ''- Monthly Income: '' @ rupee @ ''55\<newline>''
       @ spaces 12 @ ''- Savings Goal: '' @ rupee @ ''0\<newline>''
       @ spaces 12 @ ''- Current Month Expenses: '' @ rupee @ ''50\<newline>''
       @ spaces 12 @ ''- Amount Saved: '' @ rupee @ ''5\<newline>''
       @ spaces 12 @ ''- Savings Rate: 9.1%\<newline>''
       @ spaces 12 @ ''- Recent Expenses: tea: '' @ rupee @ ''10 (food), tea: '' @ rupee
       @ ''10 (food), tea: '' @ rupee @ ''10 (food), tea: '' @ rupee @ ''10 (food), tea: ''
       @ rupee @ ''10 (food)\<newline>''
       @ spaces 10"
proof -
  let ?e = "\<lparr>name = ''tea'', amount = 10, category = ''food''\<rparr>"
  let ?v = "\<lparr>monthly_income = Some 55, savings_goal = Some (0::rat)\<rparr>"
  let ?q = "''How am I doing?''"
  have carried: "financialContext example_runtime ?v (take 5 (replicate 6 ?e))
     = ''\<newline>''
       @ spaces 12 @ ''User Financial Summary:\<newline>''
       @ spaces 12 @ ''- Monthly Income: '' @ rupee @ ''55\<newline>''
       @ spaces 12 @ ''- Savings Goal: '' @ rupee @ ''0\<newline>''
       @ spaces 12 @ ''- Current Month Expenses: '' @ rupee @ ''50\<newline>''
       @ spaces 12 @ ''- Amount Saved: '' @ rupee @ ''5\<newline>''
       @ spaces 12 @ ''- Savings Rate: 9.1%\<newline>''
       @ spaces 12 @ ''- Recent Expenses: tea: '' @ rupee @ ''10 (food), tea: '' @ rupee
       @ ''10 (food), tea: '' @ rupee @ ''10 (food), tea: '' @ rupee @ ''10 (food), tea: ''
       @ rupee @ ''10 (food)\<newline>''
       @ spaces 10"
    by code_simp
  note all = chat_figures_recent_five [of "replicate 6 ?e" example_runtime
      "\<lambda>k p. Fetch_failed" ?v]
  note reach = all [THEN conjunct2, THEN conjunct2, THEN conjunct1, THEN spec, THEN spec,
      of "''secret''" ?q]
  note engine = all [THEN conjunct2, THEN conjunct2, THEN conjunct2, THEN conjunct2,
      THEN conjunct1, THEN spec, of ?q]
  have handler: "chat_handler example_runtime (Some ''secret'') (\<lambda>k p. Fetch_failed)
      (Some (JString ?q)) (Inr (Some ?v)) (Inr (replicate 6 ?e))
    = fallback example_runtime (JString ?q) ?v (take 5 (replicate 6 ?e))"
    using reach by (simp add: chat_attempt_def)
  have none: "\<not> mentions ?q ''save''" "\<not> mentions ?q ''saving''" "\<not> mentions ?q ''budget''"
    "\<not> mentions ?q ''spend''" "\<not> mentions ?q ''invest''" "\<not> mentions ?q ''grow''"
    "\<not> mentions ?q ''debt''" "\<not> mentions ?q ''loan''"
    by code_simp+
  have figures: "recent_total (replicate 6 ?e) = 50" "recent_saved ?v (replicate 6 ?e) = 5"
    "or_zero (monthly_income ?v) = 55" "or_zero (savings_goal ?v) = 0"
    by (simp_all add: recent_saved_def recent_total_def or_zero_def eval_nat_numeral)
  from engine have "fallback example_runtime (JString ?q) ?v (take 5 (replicate 6 ?e))
      = Response (generic_advice example_runtime ?q 55 50 5 0)"
    by (simp only: none figures if_False simp_thms)
  with handler have "chat_handler example_runtime (Some ''secret'') (\<lambda>k p. Fetch_failed)
      (Some (JString ?q)) (Inr (Some ?v)) (Inr (replicate 6 ?e))
    = Response (generic_advice example_runtime ?q 55 50 5 0)"
    by (simp only:)
  moreover have "reply_total_expenses
       (stats_body_stored example_runtime (row_of ?v) (category_totals_query (replicate 6 ?e)))
     = 60"
    by (simp add: stored_total eval_nat_numeral)
  ultimately show ?thesis using carried by (intro conjI)
qed

section \<open>Properties of the creation of an expense\<close>

text \<open>
  What the check of line 135 rejects: an amount that is absent, \<open>null\<close>, a number at
  most 0, or the empty string; and a number that passes is positive.
\<close>

lemma create_expense_rejects:
  "create_expense rt userId now name' Absent category' =
     Inl (Http_error 400 ''Valid name and amount are required'')"
  "create_expense rt userId now name' Null category' =
     Inl (Http_error 400 ''Valid name and amount are required'')"
  "n \<le> 0 \<Longrightarrow> create_expense rt userId now name' (Numeric n) category' =
     Inl (Http_error 400 ''Valid name and amount are required'')"
  "create_expense rt userId now name' (Text []) category' =
     Inl (Http_error 400 ''Valid name and amount are required'')"
  by (simp_all add: create_expense_def falsy_def le_zero_def to_number_def)

lemma create_expense_number:
  "create_expense rt userId now name' (Numeric n) category' = Inr ins \<Longrightarrow>
     ins_amount ins = Numeric n \<and> 0 < n"
  by (auto simp: create_expense_def falsy_def le_zero_def to_number_def split: if_splits)

text \<open>
  Claim C5 fails on the code at an amount that is text and not a number: \<open>!amount\<close> is
  false and \<open>amount <= 0\<close> compares \<open>NaN\<close>, so the handler does not answer 400 and
  runs the \<open>INSERT\<close> with that amount.
\<close>

theorem create_expense_non_numeric:
  assumes "string_number rt ''abc'' = NaN"
  shows "create_expense rt userId now (Text ''rent'') (Text ''abc'') Absent
     = Inr \<lparr> ins_user_id = userId, ins_name = Text ''rent'', ins_amount = Text ''abc'',
             ins_category = Text ''other'', ins_date = now \<rparr>"
  using assms by (simp add: create_expense_def falsy_def le_zero_def to_number_def)

text \<open>The same in the runtime of the examples.\<close>

theorem create_expense_non_numeric_example:
  "string_number example_runtime ''abc'' = NaN
   \<and> create_expense example_runtime 7 ''2026-11-02T10:00:00.000Z'' (Text ''rent'') (Text ''abc'') Absent
     = Inr \<lparr> ins_user_id = 7, ins_name = Text ''rent'', ins_amount = Text ''abc'',
             ins_category = Text ''other'', ins_date = ''2026-11-02T10:00:00.000Z'' \<rparr>"
proof -
  have nan: "string_number example_runtime ''abc'' = NaN"
    by (simp add: example_runtime_def digits_number_def is_digit_def)
  from nan create_expense_non_numeric [OF nan, of 7 "''2026-11-02T10:00:00.000Z''"]
  show ?thesis by simp
qed

end
